theory Spec2Isabelle
  imports Complex_Main
begin

section \<open>Backend: the MCP gateway (backend index.ts)\<close>

subsection \<open>JSON values\<close>

text \<open>
  Values as \<open>JSON.parse\<close> delivers them. \<open>JNum q\<close> is the JavaScript number whose exact
  value is the rational \<open>q\<close>.
\<close>

datatype json =
    JNull
  | JBool bool
  | JNum rat
  | JStr string
  | JArr "json list"
  | JObj "(string \<times> json) list"

subsection \<open>The session map\<close>

text \<open>
  A \<open>StreamableHTTPServerTransport\<close> object: \<open>obj\<close> is the identity of the object
  (\<open>new\<close> returns a fresh one each time), \<open>session\<close> is what its \<open>sessionIdGenerator\<close>
  returns.
\<close>

record transport =
  obj :: nat
  session :: string

text \<open>
  The module state: \<open>transports\<close> holds the own properties of the object
  \<open>const transports: Record<string, StreamableHTTPServerTransport> = {}\<close>,
  \<open>connects\<close> logs the calls \<open>server.connect(t)\<close> in order, \<open>fresh\<close> numbers the
  objects constructed so far.
\<close>

record gateway =
  transports :: "string \<rightharpoonup> transport"
  connects :: "transport list"
  fresh :: nat

definition init_gateway :: gateway where
  "init_gateway = \<lparr>transports = Map.empty, connects = [], fresh = 0\<rparr>"

text \<open>
  \<open>transports\<close> is an object literal \<open>{}\<close>, so a property read \<open>transports[k]\<close> that
  finds no own property continues along the prototype chain to \<open>Object.prototype\<close>.
  These are the property names every object literal inherits; each of them reads as a
  function (or, for \<open>__proto__\<close>, as \<open>Object.prototype\<close> itself), never as
  \<open>undefined\<close>.
\<close>

definition object_prototype_keys :: "string list" where
  "object_prototype_keys =
     [''constructor'', ''__proto__'', ''hasOwnProperty'', ''isPrototypeOf'',
      ''propertyIsEnumerable'', ''toLocaleString'', ''toString'', ''valueOf'',
      ''__defineGetter__'', ''__defineSetter__'', ''__lookupGetter__'',
      ''__lookupSetter__'']"

text \<open>What the expression \<open>transports[k]\<close> evaluates to.\<close>

datatype property =
    Undefined
  | Stored transport
  | Inherited string

definition get_property :: "(string \<rightharpoonup> transport) \<Rightarrow> string \<Rightarrow> property" where
  "get_property m k =
     (case m k of
        Some t \<Rightarrow> Stored t
      | None \<Rightarrow> if k \<in> set object_prototype_keys then Inherited k else Undefined)"

text \<open>JavaScript truthiness of such a value: only \<open>undefined\<close> is falsy here.\<close>

fun truthy :: "property \<Rightarrow> bool" where
  "truthy Undefined = False"
| "truthy (Stored t) = True"
| "truthy (Inherited k) = True"

text \<open>
  \<^verbatim>\<open>
  function getOrCreateTransport(sessionId: string) {
    if (!transports[sessionId]) {
      const t = new StreamableHTTPServerTransport({ sessionIdGenerator: () => sessionId, ... })
      server.connect(t)
      transports[sessionId] = t
    }
    return transports[sessionId]
  }
  \<close>
  The assignment is only reached when the read gave \<open>undefined\<close>, that is for a key that
  is not inherited, where it creates an own property.
\<close>

definition getOrCreateTransport :: "string \<Rightarrow> gateway \<Rightarrow> property \<times> gateway" where
  "getOrCreateTransport sessionId g =
     (let g' =
        (if \<not> truthy (get_property (transports g) sessionId) then
           (let t = \<lparr>obj = fresh g, session = sessionId\<rparr>
            in g\<lparr>transports := (transports g)(sessionId \<mapsto> t),
                 connects := connects g @ [t],
                 fresh := Suc (fresh g)\<rparr>)
         else g)
      in (get_property (transports g') sessionId, g'))"

subsection \<open>Routing\<close>

text \<open>
  What a route handler answers: a JSON body with a status (\<open>c.json(body, status)\<close>), the
  response written by a transport's \<open>handleRequest\<close>, or, when the handler throws (calling
  \<open>handleRequest\<close> on a value that has no such method is a \<open>TypeError\<close>), the framework's
  500 response.
\<close>

datatype response =
    Json json nat
  | HandledBy transport
  | InternalServerError

definition bad_session_body :: json where
  "bad_session_body =
     JObj [(''jsonrpc'', JStr ''2.0''),
           (''error'', JObj [(''code'', JNum (- 32000)), (''message'', JStr ''Bad Session'')]),
           (''id'', JNull)]"

text \<open>\<open>x.handleRequest(req, res, ...)\<close> for a value \<open>x\<close> read from the session map.\<close>

fun handleRequest :: "property \<Rightarrow> response" where
  "handleRequest (Stored t) = HandledBy t"
| "handleRequest (Inherited k) = InternalServerError"
| "handleRequest Undefined = InternalServerError"

text \<open>
  A GET request, as far as the handler reads it: the \<open>session\<close> query parameter
  (\<open>url.searchParams.get('session')\<close>, \<open>None\<close> for \<open>null\<close>) and the \<open>mcp-session-id\<close>
  header (\<open>None\<close> for \<open>undefined\<close>).
\<close>

record get_request =
  query_session :: "string option"
  header_session :: "string option"

text \<open>
  \<^verbatim>\<open>const sid = (url.searchParams.get('session') || c.req.header('mcp-session-id')) ?? undefined\<close>
  The empty string is falsy for \<open>||\<close>; \<open>??\<close> only replaces \<open>null\<close> and \<open>undefined\<close>.
\<close>

definition resolve_sid :: "get_request \<Rightarrow> string option" where
  "resolve_sid r =
     (case query_session r of
        Some q \<Rightarrow> if q \<noteq> [] then Some q else header_session r
      | None \<Rightarrow> header_session r)"

text \<open>
  \<^verbatim>\<open>
  if (!sid || !transports[sid]) return c.json({ jsonrpc: '2.0', error: {...}, id: null }, 400)
  ...
  await transports[sid].handleRequest(req, res)
  \<close>
\<close>

definition get_mcp :: "get_request \<Rightarrow> gateway \<Rightarrow> response \<times> gateway" where
  "get_mcp r g =
     (case resolve_sid r of
        None \<Rightarrow> (Json bad_session_body 400, g)
      | Some sid \<Rightarrow>
          if sid = [] \<or> \<not> truthy (get_property (transports g) sid)
          then (Json bad_session_body 400, g)
          else (handleRequest (get_property (transports g) sid), g))"

text \<open>
  A POST request: the \<open>mcp-session-id\<close> header; \<open>uuid\<close> is what \<open>randomUUID()\<close> returns
  if it is called.
  \<^verbatim>\<open>
  let sid = (req.headers['mcp-session-id'] as string | undefined) ?? ''
  if (!sid) { sid = randomUUID(); res.setHeader('Mcp-Session-Id', sid) }
  await getOrCreateTransport(sid).handleRequest(req, res, body)
  \<close>
\<close>

definition post_mcp :: "string option \<Rightarrow> string \<Rightarrow> gateway \<Rightarrow> response \<times> gateway" where
  "post_mcp header uuid g =
     (let sid0 = (case header of None \<Rightarrow> [] | Some h \<Rightarrow> h);
          sid = (if sid0 = [] then uuid else sid0);
          (x, g') = getOrCreateTransport sid g
      in (handleRequest x, g'))"

subsection \<open>The randomInt tool\<close>

text \<open>
  \<open>String(n)\<close> for an integer \<open>n\<close>: its decimal digits, with a leading minus sign for
  a negative one.
\<close>

definition digit :: "nat \<Rightarrow> char" where
  "digit d = ''0123456789'' ! d"

function String_nat :: "nat \<Rightarrow> string" where
  "String_nat n = (if n < 10 then [digit n] else String_nat (n div 10) @ [digit (n mod 10)])"
  by pat_completeness auto
termination
  by (relation "measure id") auto

declare String_nat.simps [simp del]

definition String :: "int \<Rightarrow> string" where
  "String i = (if i < 0 then CHR ''-'' # String_nat (nat (- i)) else String_nat (nat i))"

text \<open>Reading a decimal text back, digit by digit.\<close>

definition digit_value :: "char \<Rightarrow> nat" where
  "digit_value c = length (takeWhile (\<lambda>d. d \<noteq> c) ''0123456789'')"

definition read_nat :: "string \<Rightarrow> nat" where
  "read_nat s = foldl (\<lambda>a c. 10 * a + digit_value c) 0 s"

text \<open>
  Node's \<open>crypto.randomInt(max)\<close>, in its synchronous form with \<open>min = 0\<close>. It is library
  code; this follows its documentation: \<open>max\<close> must be a safe integer, it must be greater
  than \<open>min\<close>, and the range \<open>max - min\<close> must be less than \<open>2 ^ 48\<close>; each violation throws
  before any random byte is drawn. Otherwise a 48-bit sample is drawn (and drawn again
  while it falls in the incomplete last stretch), and the result is that sample modulo
  the range. The accepted sample is the parameter \<open>x\<close>.
\<close>

datatype node_error = ERR_INVALID_ARG_TYPE | ERR_OUT_OF_RANGE

definition MAX_SAFE_INTEGER :: int where
  "MAX_SAFE_INTEGER = 2 ^ 53 - 1"

definition RAND_MAX :: int where
  "RAND_MAX = 2 ^ 48 - 1"

definition crypto_randomInt :: "nat \<Rightarrow> int \<Rightarrow> node_error + int" where
  "crypto_randomInt x maxv =
     (if maxv < - MAX_SAFE_INTEGER \<or> MAX_SAFE_INTEGER < maxv then Inl ERR_INVALID_ARG_TYPE
      else if maxv \<le> 0 then Inl ERR_OUT_OF_RANGE
      else if RAND_MAX < maxv then Inl ERR_OUT_OF_RANGE
      else Inr (int x mod maxv))"

text \<open>
  The schema of the one parameter, \<open>max: z.number().int().optional().default(100)\<close>, applied
  to the value of the key \<open>max\<close> (\<open>None\<close> when the key is absent): an absent value becomes
  100, a number passes when it is an integer, anything else is an issue. The schema has no
  lower bound.
\<close>

datatype zod_issue = Invalid_type | Not_integer

definition is_integer :: "rat \<Rightarrow> bool" where
  "is_integer q = (of_int \<lfloor>q\<rfloor> = q)"

fun max_schema :: "json option \<Rightarrow> zod_issue + int" where
  "max_schema None = Inr 100"
| "max_schema (Some (JNum q)) = (if is_integer q then Inr \<lfloor>q\<rfloor> else Inl Not_integer)"
| "max_schema (Some v) = Inl Invalid_type"

text \<open>
  The handler registered for the tool:
  \<^verbatim>\<open>async ({ max = 100 }) => ({ content: [{ type: 'text', text: String(randomInt(max)) }] })\<close>
  It returns the texts of its content items, or throws what \<open>randomInt\<close> throws.
\<close>

definition randomInt_handler :: "nat \<Rightarrow> int \<Rightarrow> node_error + string list" where
  "randomInt_handler x maxv =
     (case crypto_randomInt x maxv of
        Inl e \<Rightarrow> Inl e
      | Inr n \<Rightarrow> Inr [String n])"

text \<open>
  How a \<open>tools/call\<close> request ends. The first three are the protocol errors the SDK
  raises itself (request parameters refused before any tool is looked up; tool not
  registered; arguments refused by the tool's schema); the fourth is an exception thrown by
  the tool's handler; the last is the handler's result.
\<close>

datatype call_outcome =
    InvalidRequest
  | ToolNotFound string
  | InvalidArguments zod_issue
  | HandlerThrew node_error
  | Content "string list"

text \<open>The value of a key of a parsed JSON object (a later duplicate wins).\<close>

definition field :: "(string \<times> json) list \<Rightarrow> string \<Rightarrow> json option" where
  "field fs k = map_of (rev fs) k"

text \<open>
  The server of this file, with its single registration \<open>server.tool('randomInt', ...)\<close>,
  answering a call of the tool \<open>name\<close> with the arguments \<open>args\<close>. The dispatch is the SDK's
  (library code): the request is refused when its arguments are not an object; then the
  name is looked up, the arguments are parsed against the registered schema, and the
  handler runs. \<open>x\<close> is the sample \<open>randomInt\<close> would accept.
\<close>

fun tools_call :: "nat \<Rightarrow> string \<Rightarrow> json \<Rightarrow> call_outcome" where
  "tools_call x name (JObj fs) =
     (if name \<noteq> ''randomInt'' then ToolNotFound name
      else case max_schema (field fs ''max'') of
             Inl issue \<Rightarrow> InvalidArguments issue
           | Inr maxv \<Rightarrow>
               (case randomInt_handler x maxv of
                  Inl e \<Rightarrow> HandlerThrew e
                | Inr texts \<Rightarrow> Content texts))"
| "tools_call x name args = InvalidRequest"

section \<open>Frontend: wire formats and environment\<close>

text \<open>What a \<open>throw\<close> or a rejected promise carries.\<close>

datatype js_error = Error string | TypeError string | SyntaxError string

text \<open>
  What \<open>fetch(...)\<close> gives: a rejection (no response at all), a response that is not
  \<open>ok\<close> with its body text, or the JSON body of a response that is.
\<close>

datatype 'a fetched = Rejected js_error | NotOk string | Ok 'a

datatype chat_message = ChatMessage (cm_role: string) (cm_content: string)

text \<open>
  OpenAI wire format. A tool call of a response: \<open>id\<close>, \<open>function.name\<close>,
  \<open>function.arguments\<close> (a JSON text; the empty string also stands for an absent one, since
  the code reads it as \<open>arguments || "{}"\<close>). A response message: \<open>content\<close> (\<open>None\<close> for
  \<open>null\<close> or absent) and \<open>tool_calls\<close> (the empty list also stands for an absent one, since
  the code only tests \<open>tool_calls?.length\<close>). The response body is the list \<open>choices\<close>, each
  with its \<open>message\<close> if it has one.
\<close>

datatype tool_call = ToolCall (tc_id: string) (tc_name: string) (tc_arguments: string)

datatype openai_message =
  OpenAIMessage (om_content: "string option") (om_tool_calls: "tool_call list")

text \<open>
  An element of the array \<open>req\<close> sent as \<open>messages\<close>: \<open>{role, content}\<close>, a response message
  sent back as it came, or \<open>{role: "tool", content, tool_call_id}\<close>.
\<close>

datatype openai_item =
    Plain string string
  | Reply openai_message
  | ToolOutput (to_content: string) (to_tool_call_id: string)

text \<open>
  Gemini wire format. A part of a candidate may carry a \<open>text\<close> and a \<open>functionCall\<close> with
  \<open>name\<close> and \<open>args\<close>. The response body is the list \<open>candidates\<close>, each with its
  \<open>content.parts\<close> if it has them. An element of \<open>contents\<close> is a text turn, the model turn
  \<open>{role: "model", parts: [fc]}\<close> or the tool turn whose single part is
  \<open>{functionResponse: {name, response: {value: Number(rand)}}}\<close>; the last keeps \<open>rand\<close>, the
  text that \<open>Number\<close> is applied to.
\<close>

datatype function_call = FunctionCall (fc_name: string) (fc_args: "json option")

datatype gemini_part = Part (p_text: "string option") (p_functionCall: "function_call option")

datatype gemini_item =
    TextTurn string string
  | ModelTurn gemini_part
  | FunctionResponse (fr_name: string) (fr_value_of: string)

text \<open>
  Claude wire format. A content block is a text, a \<open>tool_use\<close> with \<open>id\<close>, \<open>name\<close> and
  \<open>input\<close>, or of another \<open>type\<close>. A response has \<open>content\<close> and \<open>stop_reason\<close>. A
  \<open>tool_result\<close> block has \<open>tool_use_id\<close> and \<open>content\<close>. An element of \<open>messages\<close> is a
  text turn, the assistant turn echoing the response's blocks, or the user turn holding the
  array \<open>toolResults\<close>, whose entries may be \<open>undefined\<close> (\<open>None\<close>).
\<close>

datatype tool_use = ToolUse (tu_id: string) (tu_name: string) (tu_input: "json option")

datatype claude_block = TextBlock string | ToolUseBlock tool_use | OtherBlock string

datatype claude_response =
  ClaudeResponse (cr_content: "claude_block list option") (cr_stop_reason: "string option")

datatype tool_result = ToolResult (tr_tool_use_id: string) (tr_content: string)

datatype claude_item =
    UserOrAssistantText string string
  | AssistantBlocks "claude_block list"
  | ToolResults "tool_result option list"

text \<open>
  What is given from outside: the build-time variables \<open>import.meta.env.VITE_...\<close> (\<open>None\<close>
  for an undefined one); whether \<open>new URL(s)\<close> accepts a string; for the client object
  number \<open>c\<close>, the reason \<open>client.connect\<close> rejects with, if it does; what the \<open>n\<close>-th
  \<open>client.callTool\<close> of the page answers for given arguments (a rejection, or the \<open>content\<close>
  of the result, itself possibly undefined, as the list of its items' \<open>text\<close> fields);
  \<open>JSON.parse\<close> (\<open>None\<close> where it throws); and each vendor's answer to a request.
\<close>

record env =
  VITE_MCP_ENDPOINT :: "string option"
  VITE_OPENAI_API_KEY :: "string option"
  VITE_GEMINI_API_KEY :: "string option"
  VITE_CLAUDE_API_KEY :: "string option"
  URL_accepts :: "string \<Rightarrow> bool"
  connect_rejects :: "nat \<Rightarrow> string option"
  callTool :: "nat \<Rightarrow> json option \<Rightarrow> string + string option list option"
  JSON_parse :: "string \<Rightarrow> json option"
  fetch_openai :: "string \<Rightarrow> openai_item list \<Rightarrow> openai_message option list fetched"
  fetch_gemini :: "string \<Rightarrow> gemini_item list \<Rightarrow> gemini_part list option list fetched"
  fetch_claude :: "string \<Rightarrow> claude_item list \<Rightarrow> claude_response fetched"

section \<open>Frontend: the MCP client (mcpClient.ts)\<close>

text \<open>
  A promise object of this module: \<open>promise_obj\<close> is the identity of the object (two
  promises are the same object exactly when they agree on it), \<open>promise_client\<close> is the
  client object it resolves to when that client's \<open>connect\<close> fulfils; it rejects when
  that \<open>connect\<close> rejects.
\<close>

datatype promise = Promise (promise_obj: nat) (promise_client: nat)

text \<open>
  The state of the page: the module variable \<open>clientPromise\<close>, the number of \<open>MCPClient\<close>
  objects constructed, the client objects \<open>connect\<close> was called on, the arguments of every
  \<open>client.callTool\<close> made, in order, and the number of promise objects this module has
  made (one by \<open>.then\<close>, one by every call of the async function \<open>getMcpClient\<close>).
\<close>

record world =
  clientPromise :: "promise option"
  clients :: nat
  connections :: "nat list"
  tool_calls :: "json option list"
  promises :: nat

definition init_world :: world where
  "init_world =
     \<lparr>clientPromise = None, clients = 0, connections = [], tool_calls = [], promises = 0\<rparr>"

text \<open>
  \<^verbatim>\<open>
  export async function getMcpClient(): Promise<MCPClient> {
    if (clientPromise) return clientPromise;
    const client = new MCPClient({...});
    const endpoint = import.meta.env.VITE_MCP_ENDPOINT as string;
    if (!endpoint) throw new Error("VITE_MCP_ENDPOINT is not defined");
    const transport = new StreamableHTTPClientTransport(new URL(endpoint));
    clientPromise = client.connect(transport).then(() => client);
    return clientPromise;
  }
  \<close>
  The function is \<open>async\<close>: every call makes a new promise object and returns it. When
  the body throws, that promise is rejected with what was thrown (\<open>Inl\<close>); when the body
  returns \<open>clientPromise\<close>, the new promise settles as \<open>clientPromise\<close> does, so it resolves
  to the same client, but it is not the stored object.
\<close>

definition getMcpClient :: "env \<Rightarrow> world \<Rightarrow> (js_error + promise) \<times> world" where
  "getMcpClient E w =
     (let returned = promises w;
          w0 = w\<lparr>promises := Suc (promises w)\<rparr>
      in case clientPromise w0 of
           Some p \<Rightarrow> (Inr (Promise returned (promise_client p)), w0)
         | None \<Rightarrow>
             (let client = clients w0;
                  w1 = w0\<lparr>clients := Suc (clients w0)\<rparr>
              in case VITE_MCP_ENDPOINT E of
                   None \<Rightarrow> (Inl (Error ''VITE_MCP_ENDPOINT is not defined''), w1)
                 | Some endpoint \<Rightarrow>
                     if endpoint = [] then (Inl (Error ''VITE_MCP_ENDPOINT is not defined''), w1)
                     else if \<not> URL_accepts E endpoint then (Inl (TypeError ''Invalid URL''), w1)
                     else (Inr (Promise returned client),
                           w1\<lparr>connections := connections w1 @ [client],
                              clientPromise := Some (Promise (promises w1) client),
                              promises := Suc (promises w1)\<rparr>)))"

text \<open>\<open>(content as { text: string }[] | undefined)?.[0]?.text ?? ""\<close>\<close>

fun first_text :: "string option list option \<Rightarrow> string" where
  "first_text (Some (Some t # items)) = t"
| "first_text content = []"

text \<open>
  \<^verbatim>\<open>
  export async function callRandomIntTool(args: { max?: number }) {
    const client = await getMcpClient();
    const out = await client.callTool({ name: "randomInt", arguments: args });
    return (out.content as { text: string }[] | undefined)?.[0]?.text ?? "";
  }
  \<close>
\<close>

definition callRandomIntTool :: "env \<Rightarrow> json option \<Rightarrow> world \<Rightarrow> (js_error + string) \<times> world" where
  "callRandomIntTool E args w =
     (case getMcpClient E w of
        (Inl e, w1) \<Rightarrow> (Inl e, w1)
      | (Inr p, w1) \<Rightarrow>
          (case connect_rejects E (promise_client p) of
             Some reason \<Rightarrow> (Inl (Error reason), w1)
           | None \<Rightarrow>
               (let w2 = w1\<lparr>tool_calls := tool_calls w1 @ [args]\<rparr>
                in case callTool E (length (tool_calls w1)) args of
                     Inl reason \<Rightarrow> (Inl (Error reason), w2)
                   | Inr content \<Rightarrow> (Inr (first_text content), w2))))"

section \<open>Frontend: the conversation loops (llm.ts)\<close>

text \<open>
  \<^verbatim>\<open>fetch(...).then(async (r) => { if (!r.ok) throw new Error(await r.text()); return r.json(); })\<close>
\<close>

fun settled :: "'a fetched \<Rightarrow> js_error + 'a" where
  "settled (Rejected e) = Inl e"
| "settled (NotOk body) = Inl (Error body)"
| "settled (Ok v) = Inr v"

text \<open>
  How one pass through a loop body ends: \<open>continue\<close> with the new conversation state,
  \<open>return\<close>, or \<open>throw\<close>.
\<close>

datatype 'a hop = Continue 'a | Return string | Throw js_error

subsection \<open>OpenAI\<close>

text \<open>\<open>res.choices?.[0]?.message\<close>\<close>

fun first_message :: "openai_message option list \<Rightarrow> openai_message option" where
  "first_message [] = None"
| "first_message (m # choices) = m"

text \<open>\<open>call.function.arguments || "{}"\<close>\<close>

definition arguments_text :: "tool_call \<Rightarrow> string" where
  "arguments_text call = (if tc_arguments call = [] then ''{}'' else tc_arguments call)"

text \<open>\<open>msg.content ?? "(no response)"\<close>\<close>

definition openai_answer :: "openai_message \<Rightarrow> string" where
  "openai_answer msg = (case om_content msg of None \<Rightarrow> ''(no response)'' | Some c \<Rightarrow> c)"

text \<open>
  The body of \<open>while (true)\<close> in \<open>chatWithOpenAITools\<close>:
  \<^verbatim>\<open>
  const msg = res.choices?.[0]?.message;
  if (!msg) throw new Error("No response from OpenAI");
  if (msg.tool_calls?.length) {
    const call = msg.tool_calls[0];
    if (call.function.name === "randomInt") {
      const args = JSON.parse(call.function.arguments || "{}") as { max?: number };
      const rand = await callRandomIntTool(args);
      req = [...req, msg, { role: "tool", content: rand, tool_call_id: call.id }];
      continue;
    }
  }
  return msg.content ?? "(no response)";
  \<close>
\<close>

definition openai_hop ::
  "env \<Rightarrow> string \<Rightarrow> openai_item list \<Rightarrow> world \<Rightarrow> openai_item list hop \<times> world" where
  "openai_hop E apiKey req w =
     (case settled (fetch_openai E apiKey req) of
        Inl e \<Rightarrow> (Throw e, w)
      | Inr res \<Rightarrow>
          (case first_message res of
             None \<Rightarrow> (Throw (Error ''No response from OpenAI''), w)
           | Some msg \<Rightarrow>
               (case om_tool_calls msg of
                  [] \<Rightarrow> (Return (openai_answer msg), w)
                | call # others \<Rightarrow>
                    if tc_name call = ''randomInt'' then
                      (case JSON_parse E (arguments_text call) of
                         None \<Rightarrow> (Throw (SyntaxError ''JSON.parse''), w)
                       | Some args \<Rightarrow>
                           (case callRandomIntTool E (Some args) w of
                              (Inl e, w') \<Rightarrow> (Throw e, w')
                            | (Inr rand, w') \<Rightarrow>
                                (Continue (req @ [Reply msg, ToolOutput rand (tc_id call)]), w')))
                    else (Return (openai_answer msg), w))))"

text \<open>
  \<open>while (true)\<close> has no bound of its own; \<open>None\<close> is the run that never returns.
\<close>

partial_function (option) openai_loop ::
  "env \<Rightarrow> string \<Rightarrow> openai_item list \<Rightarrow> world \<Rightarrow> ((js_error + string) \<times> world) option" where
  "openai_loop E apiKey req w =
     (case openai_hop E apiKey req w of
        (Continue req', w') \<Rightarrow> openai_loop E apiKey req' w'
      | (Return answer, w') \<Rightarrow> Some (Inr answer, w')
      | (Throw e, w') \<Rightarrow> Some (Inl e, w'))"

definition openai_seed :: "string \<Rightarrow> chat_message list \<Rightarrow> openai_item list" where
  "openai_seed userPrompt history =
     [Plain ''system'' ''You are a helpful assistant.''] @
     map (\<lambda>m. Plain (cm_role m) (cm_content m)) history @
     [Plain ''user'' userPrompt]"

definition chatWithOpenAITools ::
  "env \<Rightarrow> string \<Rightarrow> chat_message list \<Rightarrow> world \<Rightarrow> ((js_error + string) \<times> world) option" where
  "chatWithOpenAITools E userPrompt history w =
     (case VITE_OPENAI_API_KEY E of
        None \<Rightarrow> Some (Inl (Error ''VITE_OPENAI_API_KEY is not set''), w)
      | Some apiKey \<Rightarrow>
          if apiKey = [] then Some (Inl (Error ''VITE_OPENAI_API_KEY is not set''), w)
          else openai_loop E apiKey (openai_seed userPrompt history) w)"

subsection \<open>Gemini\<close>

text \<open>\<open>res.candidates?.[0]\<close>, then \<open>cand.content?.parts ?? []\<close>\<close>

fun first_candidate :: "gemini_part list option list \<Rightarrow> gemini_part list option option" where
  "first_candidate [] = None"
| "first_candidate (c # candidates) = Some c"

fun parts_of :: "gemini_part list option \<Rightarrow> gemini_part list" where
  "parts_of None = []"
| "parts_of (Some ps) = ps"

text \<open>\<open>parts.filter(p => p.text).map(p => p.text).join("") || "(no response)"\<close>\<close>

fun has_text :: "gemini_part \<Rightarrow> bool" where
  "has_text (Part (Some t) fc) = (t \<noteq> [])"
| "has_text (Part None fc) = False"

fun text_of :: "gemini_part \<Rightarrow> string" where
  "text_of (Part (Some t) fc) = t"
| "text_of (Part None fc) = []"

definition gemini_answer :: "gemini_part list \<Rightarrow> string" where
  "gemini_answer parts =
     (let joined = concat (map text_of (filter has_text parts))
      in if joined = [] then ''(no response)'' else joined)"

text \<open>
  The body of \<open>while (true)\<close> in \<open>chatWithGeminiTools\<close>:
  \<^verbatim>\<open>
  const cand = res.candidates?.[0];
  if (!cand) throw new Error("No response from Gemini");
  const parts: any[] = cand.content?.parts ?? [];
  const fc = parts.find((p) => p.functionCall);
  if (fc) {
    if (fc.functionCall.name === "randomInt") {
      const args = fc.functionCall.args as { max?: number };
      const rand = await callRandomIntTool(args);
      req = [...req, { role: "model", parts: [fc] },
             { role: "tool", parts: [{ functionResponse: { name: "randomInt",
                                                            response: { value: Number(rand) } } }] }];
      continue;
    }
  }
  return parts.filter(p => p.text).map(p => p.text).join("") || "(no response)";
  \<close>
\<close>

definition gemini_hop ::
  "env \<Rightarrow> string \<Rightarrow> gemini_item list \<Rightarrow> world \<Rightarrow> gemini_item list hop \<times> world" where
  "gemini_hop E apiKey req w =
     (case settled (fetch_gemini E apiKey req) of
        Inl e \<Rightarrow> (Throw e, w)
      | Inr res \<Rightarrow>
          (case first_candidate res of
             None \<Rightarrow> (Throw (Error ''No response from Gemini''), w)
           | Some cand \<Rightarrow>
               (let parts = parts_of cand
                in case find (\<lambda>p. p_functionCall p \<noteq> None) parts of
                     None \<Rightarrow> (Return (gemini_answer parts), w)
                   | Some fc \<Rightarrow>
                       (case p_functionCall fc of
                          None \<Rightarrow> (Return (gemini_answer parts), w)
                        | Some call \<Rightarrow>
                            if fc_name call = ''randomInt'' then
                              (case callRandomIntTool E (fc_args call) w of
                                 (Inl e, w') \<Rightarrow> (Throw e, w')
                               | (Inr rand, w') \<Rightarrow>
                                   (Continue (req @ [ModelTurn fc,
                                                     FunctionResponse ''randomInt'' rand]), w'))
                            else (Return (gemini_answer parts), w)))))"

partial_function (option) gemini_loop ::
  "env \<Rightarrow> string \<Rightarrow> gemini_item list \<Rightarrow> world \<Rightarrow> ((js_error + string) \<times> world) option" where
  "gemini_loop E apiKey req w =
     (case gemini_hop E apiKey req w of
        (Continue req', w') \<Rightarrow> gemini_loop E apiKey req' w'
      | (Return answer, w') \<Rightarrow> Some (Inr answer, w')
      | (Throw e, w') \<Rightarrow> Some (Inl e, w'))"

definition gemini_seed :: "string \<Rightarrow> chat_message list \<Rightarrow> gemini_item list" where
  "gemini_seed userPrompt history =
     map (\<lambda>m. TextTurn (cm_role m) (cm_content m)) history @ [TextTurn ''user'' userPrompt]"

definition chatWithGeminiTools ::
  "env \<Rightarrow> string \<Rightarrow> chat_message list \<Rightarrow> world \<Rightarrow> ((js_error + string) \<times> world) option" where
  "chatWithGeminiTools E userPrompt history w =
     (case VITE_GEMINI_API_KEY E of
        None \<Rightarrow> Some (Inl (Error ''VITE_GEMINI_API_KEY is not set''), w)
      | Some apiKey \<Rightarrow>
          if apiKey = [] then Some (Inl (Error ''VITE_GEMINI_API_KEY is not set''), w)
          else gemini_loop E apiKey (gemini_seed userPrompt history) w)"

subsection \<open>Claude\<close>

text \<open>\<open>res.content ?? []\<close>\<close>

fun blocks_of :: "claude_block list option \<Rightarrow> claude_block list" where
  "blocks_of None = []"
| "blocks_of (Some ps) = ps"

text \<open>\<open>parts.filter((b) => b.type === "tool_use")\<close>\<close>

fun tool_uses :: "claude_block list \<Rightarrow> tool_use list" where
  "tool_uses [] = []"
| "tool_uses (ToolUseBlock u # bs) = u # tool_uses bs"
| "tool_uses (b # bs) = tool_uses bs"

text \<open>\<open>parts.filter((p) => p.type === "text").map((p) => p.text).join("")\<close>\<close>

fun texts :: "claude_block list \<Rightarrow> string" where
  "texts [] = []"
| "texts (TextBlock t # bs) = t @ texts bs"
| "texts (b # bs) = texts bs"

definition claude_answer :: "claude_block list \<Rightarrow> string" where
  "claude_answer parts = (if texts parts = [] then ''(no response)'' else texts parts)"

text \<open>
  \<^verbatim>\<open>
  toolUses.map(async (u) => {
    if (u.name === "randomInt") {
      return { type: "tool_result", tool_use_id: u.id,
               content: String(await callRandomIntTool(u.input)) };
    }
  })
  \<close>
  Each callback is started, in the order of the array, whatever becomes of the others; a
  callback for another name resolves to \<open>undefined\<close>. The calls are taken here one after the
  other in that order.
\<close>

fun run_tools :: "env \<Rightarrow> tool_use list \<Rightarrow> world \<Rightarrow> (js_error + tool_result option) list \<times> world" where
  "run_tools E [] w = ([], w)"
| "run_tools E (u # us) w =
     (if tu_name u = ''randomInt'' then
        (case callRandomIntTool E (tu_input u) w of
           (Inl e, w1) \<Rightarrow> (case run_tools E us w1 of (rs, w2) \<Rightarrow> (Inl e # rs, w2))
         | (Inr rand, w1) \<Rightarrow>
             (case run_tools E us w1 of
                (rs, w2) \<Rightarrow> (Inr (Some (ToolResult (tu_id u) rand)) # rs, w2)))
      else (case run_tools E us w of (rs, w2) \<Rightarrow> (Inr None # rs, w2)))"

text \<open>\<open>Promise.all\<close>: the values when every promise fulfils, else a rejection.\<close>

fun Promise_all :: "(js_error + 'a) list \<Rightarrow> js_error + 'a list" where
  "Promise_all [] = Inr []"
| "Promise_all (Inl e # ps) = Inl e"
| "Promise_all (Inr v # ps) = (case Promise_all ps of Inl e \<Rightarrow> Inl e | Inr vs \<Rightarrow> Inr (v # vs))"

text \<open>\<open>names.join(", ")\<close>\<close>

fun join :: "string list \<Rightarrow> string" where
  "join [] = []"
| "join [n] = n"
| "join (n # ns) = n @ '', '' @ join ns"

text \<open>
  \<^verbatim>\<open>
  const validResults = toolResults.filter(Boolean);
  const unhandled = toolUses.filter((u) => !validResults.find((v) => v.tool_use_id === u.id));
  \<close>
\<close>

definition unhandled_uses :: "tool_use list \<Rightarrow> tool_result option list \<Rightarrow> tool_use list" where
  "unhandled_uses toolUses toolResults =
     filter (\<lambda>u. find (\<lambda>v. tr_tool_use_id v = tu_id u) (List.map_filter id toolResults) = None)
       toolUses"

text \<open>
  The body of \<open>for (let depth = 0; depth < 3; depth++)\<close> in \<open>chatWithClaudeTools\<close>:
  \<^verbatim>\<open>
  const parts: any[] = res.content ?? [];
  if (res.stop_reason === "tool_use") {
    const toolUses = parts.filter((b: any) => b.type === "tool_use");
    if (!toolUses.length) throw new Error("tool_use block missing");
    const toolResults = await Promise.all(toolUses.map(...));
    const validResults = toolResults.filter(Boolean);
    const unhandled = ...;
    if (unhandled.length) {
      throw new Error(`Unhandled tool(s): ${unhandled.map((u) => u.name).join(", ")}`);
    }
    claudeMsgs = [...claudeMsgs, { role: "assistant", content: parts },
                  { role: "user", content: toolResults }];
    continue;
  }
  const answer = parts.filter((p) => p.type === "text").map((p) => p.text).join("");
  return answer || "(no response)";
  \<close>
\<close>

definition claude_hop ::
  "env \<Rightarrow> string \<Rightarrow> claude_item list \<Rightarrow> world \<Rightarrow> claude_item list hop \<times> world" where
  "claude_hop E apiKey claudeMsgs w =
     (case settled (fetch_claude E apiKey claudeMsgs) of
        Inl e \<Rightarrow> (Throw e, w)
      | Inr res \<Rightarrow>
          (let parts = blocks_of (cr_content res)
           in if cr_stop_reason res = Some ''tool_use'' then
                (let toolUses = tool_uses parts
                 in if toolUses = [] then (Throw (Error ''tool_use block missing''), w)
                    else
                      (case run_tools E toolUses w of
                         (outcomes, w') \<Rightarrow>
                           (case Promise_all outcomes of
                              Inl e \<Rightarrow> (Throw e, w')
                            | Inr toolResults \<Rightarrow>
                                (let unhandled = unhandled_uses toolUses toolResults
                                 in if unhandled \<noteq> [] then
                                      (Throw (Error (''Unhandled tool(s): '' @
                                                     join (map tu_name unhandled))), w')
                                    else
                                      (Continue (claudeMsgs @ [AssistantBlocks parts,
                                                               ToolResults toolResults]), w')))))
              else (Return (claude_answer parts), w)))"

function claude_loop ::
  "env \<Rightarrow> string \<Rightarrow> nat \<Rightarrow> claude_item list \<Rightarrow> world \<Rightarrow> (js_error + string) \<times> world" where
  "claude_loop E apiKey depth claudeMsgs w =
     (if depth < 3 then
        (case claude_hop E apiKey claudeMsgs w of
           (Continue claudeMsgs', w') \<Rightarrow> claude_loop E apiKey (Suc depth) claudeMsgs' w'
         | (Return answer, w') \<Rightarrow> (Inr answer, w')
         | (Throw e, w') \<Rightarrow> (Inl e, w'))
      else (Inl (Error ''Too many tool-calling hops''), w))"
  by pat_completeness auto
termination
  by (relation "measure (\<lambda>(E, apiKey, depth, claudeMsgs, w). 3 - depth)") auto

declare claude_loop.simps [simp del]

definition claude_seed :: "string \<Rightarrow> chat_message list \<Rightarrow> claude_item list" where
  "claude_seed userPrompt history =
     map (\<lambda>m. UserOrAssistantText (cm_role m) (cm_content m)) history @
     [UserOrAssistantText ''user'' userPrompt]"

definition chatWithClaudeTools ::
  "env \<Rightarrow> string \<Rightarrow> chat_message list \<Rightarrow> world \<Rightarrow> (js_error + string) \<times> world" where
  "chatWithClaudeTools E userPrompt history w =
     (case VITE_CLAUDE_API_KEY E of
        None \<Rightarrow> (Inl (Error ''VITE_CLAUDE_API_KEY is not set''), w)
      | Some apiKey \<Rightarrow>
          if apiKey = [] then (Inl (Error ''VITE_CLAUDE_API_KEY is not set''), w)
          else claude_loop E apiKey 0 (claude_seed userPrompt history) w)"

section \<open>Callers and scripted environments\<close>

text \<open>\<open>n\<close> calls of \<open>getMcpClient\<close> one after the other: what each returned, and the state left.\<close>

fun repeat_getMcpClient :: "env \<Rightarrow> nat \<Rightarrow> world \<Rightarrow> (js_error + promise) list \<times> world" where
  "repeat_getMcpClient E 0 w = ([], w)"
| "repeat_getMcpClient E (Suc n) w =
     (case getMcpClient E w of
        (r, w1) \<Rightarrow> (case repeat_getMcpClient E n w1 of (rs, w2) \<Rightarrow> (r # rs, w2)))"

text \<open>
  A configured page whose MCP endpoint connects and whose tool always answers \<open>7\<close>; every
  vendor answers \<open>done\<close> at once.
\<close>

definition demo_env :: env where
  "demo_env =
     \<lparr>VITE_MCP_ENDPOINT = Some ''http://localhost:8080/mcp'',
      VITE_OPENAI_API_KEY = Some ''sk-openai'',
      VITE_GEMINI_API_KEY = Some ''gemini-key'',
      VITE_CLAUDE_API_KEY = Some ''claude-key'',
      URL_accepts = (\<lambda>s. True),
      connect_rejects = (\<lambda>c. None),
      callTool = (\<lambda>n args. Inr (Some [Some ''7''])),
      JSON_parse = (\<lambda>s. if s = ''{}'' then Some (JObj []) else None),
      fetch_openai = (\<lambda>k req. Ok [Some (OpenAIMessage (Some ''done'') [])]),
      fetch_gemini = (\<lambda>k req. Ok [Some [Part (Some ''done'') None]]),
      fetch_claude = (\<lambda>k req. Ok (ClaudeResponse (Some [TextBlock ''done'']) (Some ''end_turn'')))\<rparr>"

text \<open>
  Each vendor asks for the tool in its first four responses and answers \<open>done\<close> in the
  fifth. (A request of the first prompt has 2 messages for OpenAI and 1 for the others, and
  every tool hop adds 2.)
\<close>

definition four_tool_requests :: env where
  "four_tool_requests =
     demo_env
       \<lparr>fetch_openai := (\<lambda>k req.
          if length req < 10
          then Ok [Some (OpenAIMessage None [ToolCall ''call_1'' ''randomInt'' ''{}''])]
          else Ok [Some (OpenAIMessage (Some ''done'') [])]),
        fetch_gemini := (\<lambda>k req.
          if length req < 9
          then Ok [Some [Part None (Some (FunctionCall ''randomInt'' None))]]
          else Ok [Some [Part (Some ''done'') None]]),
        fetch_claude := (\<lambda>k req.
          if length req < 9
          then Ok (ClaudeResponse (Some [ToolUseBlock (ToolUse ''toolu_1'' ''randomInt'' None)])
                     (Some ''tool_use''))
          else Ok (ClaudeResponse (Some [TextBlock ''done'']) (Some ''end_turn'')))\<rparr>"

text \<open>OpenAI asks for the tool in every response.\<close>

definition endless_tool_requests :: env where
  "endless_tool_requests =
     demo_env
       \<lparr>fetch_openai := (\<lambda>k req.
          Ok [Some (OpenAIMessage None [ToolCall ''call_1'' ''randomInt'' ''{}''])])\<rparr>"

text \<open>
  Each vendor's response holds two tool requests at once; Claude's second one is for a tool
  the page does not have.
\<close>

definition two_tool_requests :: env where
  "two_tool_requests =
     demo_env
       \<lparr>fetch_openai := (\<lambda>k req.
          Ok [Some (OpenAIMessage None [ToolCall ''call_1'' ''randomInt'' ''{}'',
                                         ToolCall ''call_2'' ''randomInt'' ''{}''])]),
        fetch_gemini := (\<lambda>k req.
          Ok [Some [Part None (Some (FunctionCall ''randomInt'' (Some (JObj [(''max'', JNum 10)])))),
                    Part None (Some (FunctionCall ''randomInt'' (Some (JObj [(''max'', JNum 20)]))))]]),
        fetch_claude := (\<lambda>k req.
          Ok (ClaudeResponse
                (Some [ToolUseBlock (ToolUse ''toolu_1'' ''randomInt'' (Some (JObj [(''max'', JNum 10)]))),
                       ToolUseBlock (ToolUse ''toolu_2'' ''weather'' None)])
                (Some ''tool_use'')))\<rparr>"

text \<open>Claude's response holds two requests for \<open>randomInt\<close> at once.\<close>

definition two_randomInt_requests :: env where
  "two_randomInt_requests =
     demo_env
       \<lparr>fetch_claude := (\<lambda>k req.
          Ok (ClaudeResponse
                (Some [ToolUseBlock (ToolUse ''toolu_1'' ''randomInt'' (Some (JObj [(''max'', JNum 10)]))),
                       ToolUseBlock (ToolUse ''toolu_2'' ''randomInt'' (Some (JObj [(''max'', JNum 20)])))])
                (Some ''tool_use'')))\<rparr>"

text \<open>Each vendor's final response carries the empty text.\<close>

definition empty_answers :: env where
  "empty_answers =
     demo_env
       \<lparr>fetch_openai := (\<lambda>k req. Ok [Some (OpenAIMessage (Some []) [])]),
        fetch_gemini := (\<lambda>k req. Ok [Some [Part (Some []) None]]),
        fetch_claude := (\<lambda>k req. Ok (ClaudeResponse (Some [TextBlock []]) (Some ''end_turn'')))\<rparr>"

text \<open>
  The module state of the MCP client is consistent: \<open>connect\<close> was called on exactly the
  client whose promise is stored, and on none while no promise is stored.
\<close>

definition one_connection :: "world \<Rightarrow> bool" where
  "one_connection w =
     (connections w = (case clientPromise w of None \<Rightarrow> [] | Some p \<Rightarrow> [promise_client p]))"

text \<open>The stored promise is one of the promise objects made so far.\<close>

definition stored_promise_known :: "world \<Rightarrow> bool" where
  "stored_promise_known w =
     (case clientPromise w of None \<Rightarrow> True | Some p \<Rightarrow> promise_obj p < promises w)"

text \<open>
  The invariant of the module state: every stored transport was connected exactly once and
  carries the key it is stored under, and no two connected transports share a session.
\<close>

definition registry_ok :: "gateway \<Rightarrow> bool" where
  "registry_ok g =
     (distinct (map session (connects g)) \<and>
      ran (transports g) = set (connects g) \<and>
      dom (transports g) = session ` set (connects g) \<and>
      (\<forall>k t. transports g k = Some t \<longrightarrow> session t = k))"

section \<open>Properties of the gateway\<close>

subsection \<open>Session map\<close>

lemma not_inherited_undefined:
  "k \<notin> set object_prototype_keys \<Longrightarrow> m k = None \<Longrightarrow> get_property m k = Undefined"
  by (simp add: get_property_def)

lemma getOrCreateTransport_stored:
  "transports g sid = Some t \<Longrightarrow> getOrCreateTransport sid g = (Stored t, g)"
  by (simp add: getOrCreateTransport_def get_property_def)

lemma getOrCreateTransport_fresh:
  assumes "sid \<notin> set object_prototype_keys" and "transports g sid = None"
  shows "getOrCreateTransport sid g =
           (Stored \<lparr>obj = fresh g, session = sid\<rparr>,
            g\<lparr>transports := (transports g)(sid \<mapsto> \<lparr>obj = fresh g, session = sid\<rparr>),
              connects := connects g @ [\<lparr>obj = fresh g, session = sid\<rparr>],
              fresh := Suc (fresh g)\<rparr>)"
  using assms by (simp add: getOrCreateTransport_def get_property_def Let_def)

lemma getOrCreateTransport_inherited:
  assumes "sid \<in> set object_prototype_keys" and "transports g sid = None"
  shows "getOrCreateTransport sid g = (Inherited sid, g)"
  using assms by (simp add: getOrCreateTransport_def get_property_def)

text \<open>A second call with the same identifier changes nothing and returns the same value.\<close>

lemma getOrCreateTransport_again:
  assumes "getOrCreateTransport sid g = (x, g')"
  shows "getOrCreateTransport sid g' = (x, g')"
proof (cases "transports g sid")
  case (Some t)
  with assms show ?thesis by (simp add: getOrCreateTransport_stored)
next
  case None
  show ?thesis
  proof (cases "sid \<in> set object_prototype_keys")
    case True
    with None assms show ?thesis by (simp add: getOrCreateTransport_inherited)
  next
    case False
    with None assms show ?thesis
      by (auto simp: getOrCreateTransport_fresh getOrCreateTransport_stored)
  qed
qed

lemma registry_ok_init: "registry_ok init_gateway"
  by (simp add: registry_ok_def init_gateway_def)

lemma registry_ok_getOrCreateTransport:
  assumes "registry_ok g"
  shows "registry_ok (snd (getOrCreateTransport sid g))"
proof (cases "truthy (get_property (transports g) sid)")
  case True
  then show ?thesis using assms by (simp add: getOrCreateTransport_def)
next
  case False
  then have none: "transports g sid = None"
    by (auto simp: get_property_def split: option.splits)
  let ?t = "\<lparr>obj = fresh g, session = sid\<rparr>"
  have "dom (transports g) = session ` set (connects g)"
    using assms by (simp add: registry_ok_def)
  moreover have "sid \<notin> dom (transports g)"
    using none by (simp add: domIff)
  ultimately have new: "sid \<notin> session ` set (connects g)"
    by simp
  have "ran ((transports g)(sid \<mapsto> ?t)) = insert ?t (ran (transports g))"
    using none by simp
  with False assms new show ?thesis
    by (auto simp: getOrCreateTransport_def Let_def registry_ok_def)
qed

lemma registry_ok_post_mcp:
  "registry_ok g \<Longrightarrow> registry_ok (snd (post_mcp header uuid g))"
  using registry_ok_getOrCreateTransport
  by (auto simp: post_mcp_def Let_def split: prod.splits dest: sndI)

text \<open>
  C2. For every session identifier the claim has \<open>getOrCreateTransport\<close> return the stored
  transport, or else construct one, connect it, store it and return it. The lemmas above give
  this for every identifier that is not a property name inherited from \<open>Object.prototype\<close>.
  For an inherited name the read \<open>transports[sessionId]\<close> is truthy although nothing is
  stored: no transport is constructed, connected or stored, and what is returned is not a
  transport, so a POST carrying that session identifier ends in a \<open>TypeError\<close>.
\<close>

theorem getOrCreateTransport_inherited_key:
  "getOrCreateTransport ''constructor'' init_gateway = (Inherited ''constructor'', init_gateway)
   \<and> post_mcp (Some ''constructor'') uuid init_gateway = (InternalServerError, init_gateway)"
  by (simp add: post_mcp_def getOrCreateTransport_def get_property_def init_gateway_def
      object_prototype_keys_def)

subsection \<open>GET requests\<close>

lemma get_mcp_keeps_state: "snd (get_mcp r g) = g"
  by (simp add: get_mcp_def split: option.splits)

lemma get_mcp_absent: "resolve_sid r = None \<Longrightarrow> get_mcp r g = (Json bad_session_body 400, g)"
  by (simp add: get_mcp_def)

lemma get_mcp_unregistered:
  assumes "resolve_sid r = Some sid"
    and "transports g sid = None"
    and "sid \<notin> set object_prototype_keys"
  shows "get_mcp r g = (Json bad_session_body 400, g)"
  using assms by (simp add: get_mcp_def get_property_def)

lemma get_mcp_registered:
  assumes "resolve_sid r = Some sid" and "sid \<noteq> []" and "transports g sid = Some t"
  shows "get_mcp r g = (HandledBy t, g)"
  using assms by (simp add: get_mcp_def get_property_def)

text \<open>
  C5. A GET request whose session identifier is absent or not registered is to be answered
  with the Bad Session body and a non-success status, without creating a transport. The
  lemmas above give this when the identifier is absent, and when it is unregistered and not
  a property name inherited from \<open>Object.prototype\<close>. For an inherited name the guard
  \<open>!transports[sid]\<close> does not fire: the handler goes on to call \<open>handleRequest\<close> on a value
  that has no such method, and the request ends in the framework's 500 response instead of
  the Bad Session body.
\<close>

theorem get_mcp_inherited_key:
  "resolve_sid \<lparr>query_session = Some ''constructor'', header_session = None\<rparr> = Some ''constructor''
   \<and> transports init_gateway ''constructor'' = None
   \<and> get_mcp \<lparr>query_session = Some ''constructor'', header_session = None\<rparr> init_gateway
       = (InternalServerError, init_gateway)"
  by (simp add: get_mcp_def resolve_sid_def get_property_def init_gateway_def
      object_prototype_keys_def)

text \<open>
  C8. When a GET request carries a non-empty \<open>session\<close> query parameter, the session
  identifier is that parameter, whatever the \<open>mcp-session-id\<close> header holds: the answer is
  the one the same request gets with any other header, or with none.
\<close>

theorem query_parameter_wins:
  assumes "query_session r = Some q" and "q \<noteq> []"
  shows "resolve_sid r = Some q \<and> get_mcp r g = get_mcp (r\<lparr>header_session := h\<rparr>) g"
  using assms by (simp add: resolve_sid_def get_mcp_def)

theorem query_parameter_wins_witness:
  "query_session \<lparr>query_session = Some ''a'', header_session = Some ''b''\<rparr> = Some ''a''
   \<and> ''a'' \<noteq> []
   \<and> resolve_sid \<lparr>query_session = Some ''a'', header_session = Some ''b''\<rparr> = Some ''a''
   \<and> get_mcp \<lparr>query_session = Some ''a'', header_session = Some ''b''\<rparr>
        (snd (getOrCreateTransport ''b'' (snd (getOrCreateTransport ''a'' init_gateway))))
      = get_mcp \<lparr>query_session = Some ''a'', header_session = None\<rparr>
        (snd (getOrCreateTransport ''b'' (snd (getOrCreateTransport ''a'' init_gateway))))"
  using query_parameter_wins [of "\<lparr>query_session = Some ''a'', header_session = Some ''b''\<rparr>"
      "''a''" "snd (getOrCreateTransport ''b'' (snd (getOrCreateTransport ''a'' init_gateway)))"
      None]
  by simp

section \<open>Properties of the randomInt tool\<close>

lemma is_integer_Ints: "is_integer q \<longleftrightarrow> q \<in> \<int>"
  by (auto simp: is_integer_def Ints_def of_int_floor_cancel)

lemmas tool_defs =
  field_def is_integer_Ints randomInt_handler_def crypto_randomInt_def MAX_SAFE_INTEGER_def
  RAND_MAX_def

lemmas String_defs = String_def String_nat.simps digit_def

text \<open>The text of a number determines the number.\<close>

lemma digit_value_digit: "d < 10 \<Longrightarrow> digit_value (digit d) = d"
proof -
  assume "d < 10"
  then have "d \<in> {0, 1, 2, 3, 4, 5, 6, 7, 8, 9}" by auto
  then show ?thesis by (auto simp: digit_value_def digit_def)
qed

lemma read_nat_String_nat: "read_nat (String_nat n) = n"
proof (induction n rule: String_nat.induct)
  case (1 n)
  show ?case
  proof (cases "n < 10")
    case True
    then show ?thesis
      by (subst String_nat.simps) (simp add: read_nat_def digit_value_digit)
  next
    case False
    with 1 have "read_nat (String_nat (n div 10)) = n div 10" by simp
    with False show ?thesis
      by (subst String_nat.simps) (simp add: read_nat_def digit_value_digit)
  qed
qed

lemma read_nat_String: "0 \<le> n \<Longrightarrow> int (read_nat (String n)) = n"
  by (simp add: String_def read_nat_String_nat)

lemma tools_call_unknown:
  "name \<noteq> ''randomInt'' \<Longrightarrow> tools_call x name (JObj fs) = ToolNotFound name"
  by simp

lemma tools_call_not_integer:
  "q \<notin> \<int> \<Longrightarrow> tools_call x ''randomInt'' (JObj [(''max'', JNum q)]) = InvalidArguments Not_integer"
  by (simp add: field_def is_integer_Ints)

lemma tools_call_not_positive:
  assumes "maxv \<le> 0" and "- MAX_SAFE_INTEGER \<le> maxv"
  shows "max_schema (Some (JNum (of_int maxv))) = Inr maxv"
    and "tools_call x ''randomInt'' (JObj [(''max'', JNum (of_int maxv))])
           = HandlerThrew ERR_OUT_OF_RANGE"
  using assms by (simp_all add: tool_defs)

text \<open>
  C3. The claim is that the tool succeeds for every integer \<open>max \<ge> 1\<close>. The generator it
  calls refuses a range of \<open>2 ^ 48\<close> or more, so the claim holds for \<open>1 \<le> max < 2 ^ 48\<close>:
  there the call returns the decimal text of an integer \<open>n\<close> with \<open>0 \<le> n < max\<close>; for
  \<open>max = 1\<close> that is \<open>0\<close>; and without \<open>max\<close> the bound is 100.
\<close>

theorem randomInt_tool_in_range:
  assumes "1 \<le> maxv" and "maxv \<le> RAND_MAX"
  shows "(\<exists>n. tools_call x ''randomInt'' (JObj [(''max'', JNum (of_int maxv))]) = Content [String n]
              \<and> 0 \<le> n \<and> n < maxv)
       \<and> tools_call x ''randomInt'' (JObj [(''max'', JNum 1)]) = Content [''0'']
       \<and> (\<exists>n. tools_call x ''randomInt'' (JObj []) = Content [String n] \<and> 0 \<le> n \<and> n < 100)"
proof -
  have safe: "\<not> (maxv < - MAX_SAFE_INTEGER \<or> MAX_SAFE_INTEGER < maxv)"
    using assms by (simp add: MAX_SAFE_INTEGER_def RAND_MAX_def)
  have "crypto_randomInt x maxv = Inr (int x mod maxv)"
    using assms safe by (simp add: crypto_randomInt_def)
  then have "tools_call x ''randomInt'' (JObj [(''max'', JNum (of_int maxv))])
               = Content [String (int x mod maxv)]"
    by (simp add: field_def is_integer_Ints randomInt_handler_def)
  moreover have "0 \<le> int x mod maxv" "int x mod maxv < maxv"
    using assms by simp_all
  ultimately have first: "\<exists>n. tools_call x ''randomInt'' (JObj [(''max'', JNum (of_int maxv))])
                              = Content [String n] \<and> 0 \<le> n \<and> n < maxv"
    by blast
  have second: "tools_call x ''randomInt'' (JObj [(''max'', JNum 1)]) = Content [''0'']"
    by (simp add: tool_defs String_defs)
  have "tools_call x ''randomInt'' (JObj []) = Content [String (int x mod 100)]"
    by (simp add: tool_defs)
  moreover have "0 \<le> int x mod 100" "int x mod 100 < 100"
    by simp_all
  ultimately have third: "\<exists>n. tools_call x ''randomInt'' (JObj []) = Content [String n]
                               \<and> 0 \<le> n \<and> n < 100"
    by blast
  from first second third show ?thesis by blast
qed

theorem randomInt_tool_in_range_witness:
  "(1::int) \<le> 10 \<and> 10 \<le> RAND_MAX
   \<and> (\<exists>n. tools_call 12345 ''randomInt'' (JObj [(''max'', JNum 10)]) = Content [String n]
          \<and> 0 \<le> n \<and> n < 10)
   \<and> tools_call 12345 ''randomInt'' (JObj [(''max'', JNum 1)]) = Content [''0'']
   \<and> (\<exists>n. tools_call 12345 ''randomInt'' (JObj []) = Content [String n] \<and> 0 \<le> n \<and> n < 100)"
  using randomInt_tool_in_range [of 10 12345] by (simp add: RAND_MAX_def)

theorem randomInt_tool_range_limit:
  "(1::int) \<le> 281474976710656
   \<and> tools_call 0 ''randomInt'' (JObj [(''max'', JNum 281474976710656)])
       = HandlerThrew ERR_OUT_OF_RANGE"
  by (simp add: tool_defs)

text \<open>
  C4. The claim is that \<open>max = 0\<close> and a negative \<open>max\<close> are refused as invalid arguments,
  as a \<open>max\<close> that is not an integer is (\<open>tools_call_not_integer\<close>). The schema has no lower
  bound: 0 and -5 pass it, the handler runs, and the call ends with the range error thrown
  by \<open>randomInt\<close>, not with the refusal of the arguments.
\<close>

theorem randomInt_tool_zero_passes_schema:
  "max_schema (Some (JNum 0)) = Inr 0
   \<and> tools_call x ''randomInt'' (JObj [(''max'', JNum 0)]) = HandlerThrew ERR_OUT_OF_RANGE
   \<and> max_schema (Some (JNum (- 5))) = Inr (- 5)
   \<and> tools_call x ''randomInt'' (JObj [(''max'', JNum (- 5))]) = HandlerThrew ERR_OUT_OF_RANGE
   \<and> tools_call x ''randomInt'' (JObj [(''max'', JNum (3 / 2))]) = InvalidArguments Not_integer"
  by (simp add: tool_defs)

section \<open>Properties of the MCP client\<close>

lemma getMcpClient_stored:
  "clientPromise w = Some s \<Longrightarrow>
   getMcpClient E w
     = (Inr (Promise (promises w) (promise_client s)), w\<lparr>promises := Suc (promises w)\<rparr>)"
  by (simp add: getMcpClient_def)

lemma getMcpClient_stores:
  assumes "getMcpClient E w = (Inr p, w')"
  shows "map_option promise_client (clientPromise w') = Some (promise_client p)"
  using assms
  by (auto simp: getMcpClient_def Let_def split: option.splits if_splits)

lemma getMcpClient_one_connection:
  assumes "one_connection w"
  shows "one_connection (snd (getMcpClient E w))"
  using assms
  by (auto simp: getMcpClient_def one_connection_def Let_def split: option.splits)

lemma getMcpClient_tool_calls: "tool_calls (snd (getMcpClient E w)) = tool_calls w"
  by (auto simp: getMcpClient_def Let_def split: option.splits)

text \<open>
  The promise a call returns is a new object: it is not the stored one, before or after
  the call.
\<close>

lemma getMcpClient_stored_promise_known:
  "stored_promise_known w \<Longrightarrow> stored_promise_known (snd (getMcpClient E w))"
  by (auto simp: getMcpClient_def stored_promise_known_def Let_def split: option.splits)

lemma getMcpClient_returns_new_promise:
  assumes "stored_promise_known w" and "getMcpClient E w = (Inr p, w')"
  shows "promise_obj p = promises w \<and> clientPromise w \<noteq> Some p \<and> clientPromise w' \<noteq> Some p"
proof -
  have obj: "promise_obj p = promises w"
    using assms(2)
    by (auto simp: getMcpClient_def Let_def split: option.splits if_splits)
  have old: "clientPromise w \<noteq> Some p"
    using assms(1) obj by (auto simp: stored_promise_known_def)
  have step: "clientPromise w' = clientPromise w
        \<or> clientPromise w' = Some (Promise (Suc (promises w)) (promise_client p))"
    using assms(2)
    by (auto simp: getMcpClient_def Let_def split: option.splits if_splits)
  have "clientPromise w' \<noteq> Some p"
  proof
    assume "clientPromise w' = Some p"
    with step old have "p = Promise (Suc (promises w)) (promise_client p)"
      by auto
    then have "promise_obj p = Suc (promises w)"
      by (metis promise.sel(1))
    with obj show False by simp
  qed
  with obj old show ?thesis by simp
qed

lemma repeat_getMcpClient_stored:
  "clientPromise w = Some s \<Longrightarrow>
   repeat_getMcpClient E n w
     = (map (\<lambda>i. Inr (Promise (promises w + i) (promise_client s))) [0..<n],
        w\<lparr>promises := promises w + n\<rparr>)"
proof (induction n arbitrary: w)
  case 0
  then show ?case by simp
next
  case (Suc n)
  let ?w0 = "w\<lparr>promises := Suc (promises w)\<rparr>"
  have "clientPromise ?w0 = Some s"
    using Suc.prems by simp
  from Suc.IH [OF this] Suc.prems show ?case
    by (simp add: getMcpClient_stored map_upt_Suc del: upt_Suc)
qed

lemma repeat_getMcpClient_one_connection:
  "one_connection w \<Longrightarrow> one_connection (snd (repeat_getMcpClient E n w))"
proof (induction n arbitrary: w)
  case 0
  then show ?case by simp
next
  case (Suc n)
  from Suc.prems have "one_connection (snd (getMcpClient E w))"
    by (rule getMcpClient_one_connection)
  then have "one_connection (snd (repeat_getMcpClient E n (snd (getMcpClient E w))))"
    by (rule Suc.IH)
  then show ?case by (auto split: prod.splits)
qed

lemma one_connection_length: "one_connection w \<Longrightarrow> length (connections w) \<le> 1"
  by (simp add: one_connection_def split: option.splits)

lemma callRandomIntTool_fulfilled:
  assumes "callRandomIntTool E args w = (Inr rand, w')"
  shows "tool_calls w' = tool_calls w @ [args]"
  using assms getMcpClient_tool_calls [of E w]
  by (auto simp: callRandomIntTool_def Let_def split: prod.splits sum.splits option.splits)

lemma callRandomIntTool_at_most_one:
  "tool_calls (snd (callRandomIntTool E args w)) = tool_calls w
   \<or> tool_calls (snd (callRandomIntTool E args w)) = tool_calls w @ [args]"
  using getMcpClient_tool_calls [of E w]
  by (auto simp: callRandomIntTool_def Let_def split: prod.splits sum.splits option.splits)

lemma callRandomIntTool_one_connection:
  assumes "one_connection w"
  shows "one_connection (snd (callRandomIntTool E args w))"
  using getMcpClient_one_connection [OF assms, of E]
  by (auto simp: callRandomIntTool_def Let_def one_connection_def
      split: prod.splits sum.splits option.splits)

text \<open>
  C10. The claim is that after a first successful call every later call returns the same
  stored promise. The function is \<open>async\<close>, so every call returns a promise object of its
  own. What holds: once a call has returned a promise, the stored promise resolves to the
  same client as the returned one, every later call returns a new promise that resolves to
  that same client and changes nothing else in the state; and however many calls are made
  from the start of the page, \<open>connect\<close> is called at most once.
\<close>

theorem getMcpClient_same_client:
  "(getMcpClient E w = (Inr p, wa) \<longrightarrow>
      map_option promise_client (clientPromise wa) = Some (promise_client p)
      \<and> repeat_getMcpClient E n wa
          = (map (\<lambda>i. Inr (Promise (promises wa + i) (promise_client p))) [0..<n],
             wa\<lparr>promises := promises wa + n\<rparr>))
   \<and> length (connections (snd (repeat_getMcpClient E n init_world))) \<le> 1"
proof
  show "getMcpClient E w = (Inr p, wa) \<longrightarrow>
      map_option promise_client (clientPromise wa) = Some (promise_client p)
      \<and> repeat_getMcpClient E n wa
          = (map (\<lambda>i. Inr (Promise (promises wa + i) (promise_client p))) [0..<n],
             wa\<lparr>promises := promises wa + n\<rparr>)"
  proof
    assume call: "getMcpClient E w = (Inr p, wa)"
    from getMcpClient_stores [OF call] obtain s where
      s: "clientPromise wa = Some s" "promise_client s = promise_client p"
      by auto
    from repeat_getMcpClient_stored [OF s(1), of E n] s(2) getMcpClient_stores [OF call]
    show "map_option promise_client (clientPromise wa) = Some (promise_client p)
      \<and> repeat_getMcpClient E n wa
          = (map (\<lambda>i. Inr (Promise (promises wa + i) (promise_client p))) [0..<n],
             wa\<lparr>promises := promises wa + n\<rparr>)"
      by simp
  qed
  have "one_connection init_world"
    by (simp add: one_connection_def init_world_def)
  then show "length (connections (snd (repeat_getMcpClient E n init_world))) \<le> 1"
    by (intro one_connection_length repeat_getMcpClient_one_connection)
qed

theorem getMcpClient_same_client_witness:
  "getMcpClient demo_env init_world
     = (Inr (Promise 0 0),
        \<lparr>clientPromise = Some (Promise 1 0), clients = 1, connections = [0], tool_calls = [],
         promises = 2\<rparr>)
   \<and> repeat_getMcpClient demo_env 3
        \<lparr>clientPromise = Some (Promise 1 0), clients = 1, connections = [0], tool_calls = [],
         promises = 2\<rparr>
       = ([Inr (Promise 2 0), Inr (Promise 3 0), Inr (Promise 4 0)],
          \<lparr>clientPromise = Some (Promise 1 0), clients = 1, connections = [0], tool_calls = [],
           promises = 5\<rparr>)
   \<and> length (connections (snd (repeat_getMcpClient demo_env 3 init_world))) \<le> 1"
proof -
  have h: "getMcpClient demo_env init_world
     = (Inr (Promise 0 0),
        \<lparr>clientPromise = Some (Promise 1 0), clients = 1, connections = [0], tool_calls = [],
         promises = 2\<rparr>)"
    by (simp add: getMcpClient_def demo_env_def init_world_def)
  from h getMcpClient_same_client [of demo_env init_world "Promise 0 0"
      "\<lparr>clientPromise = Some (Promise 1 0), clients = 1, connections = [0], tool_calls = [],
        promises = 2\<rparr>" 3]
  show ?thesis by (simp add: numeral_3_eq_3 upt_rec)
qed

theorem getMcpClient_new_promise:
  "getMcpClient demo_env init_world
     = (Inr (Promise 0 0),
        \<lparr>clientPromise = Some (Promise 1 0), clients = 1, connections = [0], tool_calls = [],
         promises = 2\<rparr>)
   \<and> getMcpClient demo_env
        \<lparr>clientPromise = Some (Promise 1 0), clients = 1, connections = [0], tool_calls = [],
         promises = 2\<rparr>
       = (Inr (Promise 2 0),
          \<lparr>clientPromise = Some (Promise 1 0), clients = 1, connections = [0], tool_calls = [],
           promises = 3\<rparr>)
   \<and> Promise 2 0 \<noteq> Promise 1 0
   \<and> Promise 2 0 \<noteq> Promise 0 0"
  by (simp add: getMcpClient_def demo_env_def init_world_def)

section \<open>Properties of the conversation loops\<close>

lemmas client_defs = callRandomIntTool_def getMcpClient_def

subsection \<open>Unfolding a loop by one hop\<close>

lemma openai_loop_Continue:
  "openai_hop E k req w = (Continue req', w') \<Longrightarrow> openai_loop E k req w = openai_loop E k req' w'"
  by (subst openai_loop.simps) simp

lemma gemini_loop_Continue:
  "gemini_hop E k req w = (Continue req', w') \<Longrightarrow> gemini_loop E k req w = gemini_loop E k req' w'"
  by (subst gemini_loop.simps) simp

lemma claude_loop_Continue:
  "claude_hop E k msgs w = (Continue msgs', w') \<Longrightarrow> depth < 3 \<Longrightarrow>
   claude_loop E k depth msgs w = claude_loop E k (Suc depth) msgs' w'"
  by (subst claude_loop.simps) simp

subsection \<open>The bound on tool hops\<close>

text \<open>
  The Claude loop stops after three hops that asked for tools: it throws, and the state is
  the one the third hop left.
\<close>

lemma claude_loop_three_hops:
  assumes "claude_hop E k m0 w0 = (Continue m1, w1)"
    and "claude_hop E k m1 w1 = (Continue m2, w2)"
    and "claude_hop E k m2 w2 = (Continue m3, w3)"
  shows "claude_loop E k 0 m0 w0 = (Inl (Error ''Too many tool-calling hops''), w3)"
proof -
  have "claude_loop E k 0 m0 w0 = claude_loop E k (Suc 0) m1 w1"
    using assms(1) by (simp add: claude_loop_Continue)
  also have "\<dots> = claude_loop E k (Suc (Suc 0)) m2 w2"
    using assms(2) by (simp add: claude_loop_Continue)
  also have "\<dots> = claude_loop E k (Suc (Suc (Suc 0))) m3 w3"
    using assms(3) by (simp add: claude_loop_Continue)
  also have "\<dots> = (Inl (Error ''Too many tool-calling hops''), w3)"
    by (subst claude_loop.simps) simp
  finally show ?thesis .
qed

lemma claude_four_tool_requests:
  "chatWithClaudeTools four_tool_requests ''hi'' [] init_world
     = (Inl (Error ''Too many tool-calling hops''),
        \<lparr>clientPromise = Some (Promise 1 0), clients = 1, connections = [0],
         tool_calls = [None, None, None], promises = 4\<rparr>)"
  by (simp add: chatWithClaudeTools_def four_tool_requests_def demo_env_def claude_seed_def
      claude_loop.simps claude_hop_def client_defs init_world_def unhandled_uses_def
      List.map_filter_def Let_def)

text \<open>The OpenAI loop has no bound: while the vendor asks for the tool, it goes on.\<close>

lemma endless_hop:
  "\<exists>req' w'. openai_hop endless_tool_requests k req w = (Continue req', w')"
  by (auto simp: endless_tool_requests_def demo_env_def openai_hop_def arguments_text_def
      client_defs Let_def split: option.splits)

lemma openai_loop_returns_not_endless:
  assumes "openai_loop E k req w = Some y"
  shows "E \<noteq> endless_tool_requests"
proof (rule openai_loop.raw_induct
    [where P = "\<lambda>E k req w y. E \<noteq> endless_tool_requests", OF _ assms])
  fix f :: "env \<Rightarrow> string \<Rightarrow> openai_item list \<Rightarrow> world \<Rightarrow> ((js_error + string) \<times> world) option"
    and E k req w y
  assume IH: "\<And>E k req w y. f E k req w = Some y \<Longrightarrow> E \<noteq> endless_tool_requests"
    and step: "(case openai_hop E k req w of
                  (Continue req', w') \<Rightarrow> f E k req' w'
                | (Return answer, w') \<Rightarrow> Some (Inr answer, w')
                | (Throw e, w') \<Rightarrow> Some (Inl e, w')) = Some y"
  show "E \<noteq> endless_tool_requests"
  proof
    assume E: "E = endless_tool_requests"
    from endless_hop [of k req w] obtain req' w' where
      "openai_hop endless_tool_requests k req w = (Continue req', w')" by blast
    with step E have "f endless_tool_requests k req' w' = Some y" by simp
    from IH [OF this] show False by simp
  qed
qed

lemma openai_loop_endless: "openai_loop endless_tool_requests k req w = None"
proof (cases "openai_loop endless_tool_requests k req w")
  case None
  then show ?thesis .
next
  case (Some y)
  then show ?thesis using openai_loop_returns_not_endless by blast
qed

text \<open>
  C1. The claim is that every adapter stops with the fatal error after three tool
  executions when the vendor asks for a tool four times in a row. The Claude loop does
  (\<open>claude_loop_three_hops\<close>, \<open>claude_four_tool_requests\<close>). The OpenAI and Gemini loops are
  \<open>while (true)\<close> without a count: on four tool requests in a row followed by an answer they
  run the tool four times and return the answer.
\<close>

theorem unbounded_tool_hops:
  "chatWithOpenAITools four_tool_requests ''hi'' [] init_world
     = Some (Inr ''done'',
             \<lparr>clientPromise = Some (Promise 1 0), clients = 1, connections = [0],
              tool_calls = [Some (JObj []), Some (JObj []), Some (JObj []), Some (JObj [])],
              promises = 5\<rparr>)
   \<and> chatWithGeminiTools four_tool_requests ''hi'' [] init_world
     = Some (Inr ''done'',
             \<lparr>clientPromise = Some (Promise 1 0), clients = 1, connections = [0],
              tool_calls = [None, None, None, None], promises = 5\<rparr>)"
  by (simp add: chatWithOpenAITools_def chatWithGeminiTools_def four_tool_requests_def
      demo_env_def openai_seed_def gemini_seed_def openai_loop.simps gemini_loop.simps
      openai_hop_def gemini_hop_def arguments_text_def client_defs init_world_def
      openai_answer_def gemini_answer_def)

subsection \<open>The final answer\<close>

lemma openai_answer_absent: "om_content msg = None \<Longrightarrow> openai_answer msg = ''(no response)''"
  by (simp add: openai_answer_def)

lemma openai_answer_present: "om_content msg = Some c \<Longrightarrow> openai_answer msg = c"
  by (simp add: openai_answer_def)

lemma gemini_answer_not_empty: "gemini_answer parts \<noteq> []"
  by (simp add: gemini_answer_def Let_def)

lemma claude_answer_not_empty: "claude_answer parts \<noteq> []"
  by (simp add: claude_answer_def)

text \<open>
  C7. The claim is that an empty or absent final text is replaced by \<open>(no response)\<close> in
  every adapter. The Gemini and Claude loops replace both with \<open>||\<close>
  (\<open>gemini_answer_not_empty\<close>, \<open>claude_answer_not_empty\<close>). The OpenAI loop uses \<open>??\<close>, which
  replaces an absent text (\<open>openai_answer_absent\<close>) but not the empty one: it returns the
  empty text.
\<close>

theorem empty_answer_text:
  "chatWithOpenAITools empty_answers ''hi'' [] init_world = Some (Inr [], init_world)
   \<and> chatWithGeminiTools empty_answers ''hi'' [] init_world
       = Some (Inr ''(no response)'', init_world)
   \<and> chatWithClaudeTools empty_answers ''hi'' [] init_world = (Inr ''(no response)'', init_world)"
  by (simp add: chatWithOpenAITools_def chatWithGeminiTools_def chatWithClaudeTools_def
      empty_answers_def demo_env_def openai_seed_def gemini_seed_def claude_seed_def
      openai_loop.simps gemini_loop.simps claude_loop.simps
      openai_hop_def gemini_hop_def claude_hop_def openai_answer_def
      gemini_answer_def claude_answer_def)

subsection \<open>One hop with tool requests\<close>

lemma run_tools_fulfilled:
  assumes "run_tools E us w = (outcomes, w')" and "Promise_all outcomes = Inr toolResults"
  shows "tool_calls w' = tool_calls w @ map tu_input (filter (\<lambda>u. tu_name u = ''randomInt'') us)
       \<and> map (map_option tr_tool_use_id) toolResults
           = map (\<lambda>u. if tu_name u = ''randomInt'' then Some (tu_id u) else None) us"
  using assms
proof (induction us arbitrary: w w' outcomes toolResults)
  case Nil
  then show ?case by auto
next
  case (Cons u us)
  show ?case
  proof (cases "tu_name u = ''randomInt''")
    case True
    obtain r w1 where call: "callRandomIntTool E (tu_input u) w = (r, w1)"
      by (cases "callRandomIntTool E (tu_input u) w")
    obtain rs w2 where rest: "run_tools E us w1 = (rs, w2)"
      by (cases "run_tools E us w1")
    show ?thesis
    proof (cases r)
      case (Inl e)
      with True call rest Cons.prems show ?thesis by auto
    next
      case (Inr rand)
      with True call rest Cons.prems obtain vs where
        vs: "Promise_all rs = Inr vs" "toolResults = Some (ToolResult (tu_id u) rand) # vs" "w' = w2"
        by (auto split: sum.splits)
      from Cons.IH [OF rest vs(1)] callRandomIntTool_fulfilled [of E "tu_input u" w rand w1]
        call Inr True vs
      show ?thesis by simp
    qed
  next
    case False
    obtain rs w2 where rest: "run_tools E us w = (rs, w2)"
      by (cases "run_tools E us w")
    with False Cons.prems obtain vs where
      vs: "Promise_all rs = Inr vs" "toolResults = None # vs" "w' = w2"
      by (auto split: sum.splits)
    from Cons.IH [OF rest vs(1)] False vs show ?thesis by simp
  qed
qed

lemma openai_hop_first_call:
  assumes "settled (fetch_openai E k req) = Inr res"
    and "first_message res = Some msg"
    and "om_tool_calls msg = call # others"
  shows "tool_calls (snd (openai_hop E k req w)) = tool_calls w
       \<or> tool_calls (snd (openai_hop E k req w))
           = tool_calls w @ [JSON_parse E (arguments_text call)]"
proof (cases "tc_name call = ''randomInt''")
  case False
  with assms show ?thesis by (simp add: openai_hop_def)
next
  case True
  show ?thesis
  proof (cases "JSON_parse E (arguments_text call)")
    case None
    with True assms show ?thesis by (simp add: openai_hop_def)
  next
    case (Some args)
    from callRandomIntTool_at_most_one [of E "Some args" w] True assms Some
    show ?thesis by (auto simp: openai_hop_def split: prod.splits sum.splits)
  qed
qed

lemma openai_hop_Continue:
  assumes "settled (fetch_openai E k req) = Inr res"
    and "first_message res = Some msg"
    and "om_tool_calls msg = call # others"
    and "openai_hop E k req w = (Continue req', w')"
  shows "\<exists>rand. req' = req @ [Reply msg, ToolOutput rand (tc_id call)]"
  using assms
  by (auto simp: openai_hop_def split: if_splits option.splits prod.splits sum.splits)

lemma gemini_hop_first_call:
  assumes "settled (fetch_gemini E k req) = Inr res"
    and "first_candidate res = Some cand"
    and "find (\<lambda>p. p_functionCall p \<noteq> None) (parts_of cand) = Some fc"
    and "p_functionCall fc = Some call"
  shows "tool_calls (snd (gemini_hop E k req w)) = tool_calls w
       \<or> tool_calls (snd (gemini_hop E k req w)) = tool_calls w @ [fc_args call]"
  using callRandomIntTool_at_most_one [of E "fc_args call" w] assms
  by (auto simp: gemini_hop_def split: prod.splits sum.splits)

lemma gemini_hop_Continue:
  assumes "settled (fetch_gemini E k req) = Inr res"
    and "first_candidate res = Some cand"
    and "find (\<lambda>p. p_functionCall p \<noteq> None) (parts_of cand) = Some fc"
    and "p_functionCall fc = Some call"
    and "gemini_hop E k req w = (Continue req', w')"
  shows "\<exists>rand. req' = req @ [ModelTurn fc, FunctionResponse (fc_name call) rand]"
  using assms
  by (auto simp: gemini_hop_def split: if_splits prod.splits sum.splits)

lemma claude_hop_Continue:
  assumes "settled (fetch_claude E k msgs) = Inr res"
    and "claude_hop E k msgs w = (Continue msgs', w')"
  shows "\<exists>toolResults.
           msgs' = msgs @ [AssistantBlocks (blocks_of (cr_content res)), ToolResults toolResults]
         \<and> map (map_option tr_tool_use_id) toolResults
             = map (\<lambda>u. if tu_name u = ''randomInt'' then Some (tu_id u) else None)
                 (tool_uses (blocks_of (cr_content res)))"
proof -
  let ?parts = "blocks_of (cr_content res)"
  obtain outcomes w1 where run: "run_tools E (tool_uses ?parts) w = (outcomes, w1)"
    by (cases "run_tools E (tool_uses ?parts) w")
  from assms run obtain toolResults where
    all: "Promise_all outcomes = Inr toolResults"
    and new: "msgs' = msgs @ [AssistantBlocks ?parts, ToolResults toolResults]"
    by (auto simp: claude_hop_def Let_def split: if_splits sum.splits)
  from run_tools_fulfilled [OF run all] new show ?thesis by blast
qed

lemma valid_ids:
  "map tr_tool_use_id (List.map_filter id toolResults)
     = List.map_filter id (map (map_option tr_tool_use_id) toolResults)"
  by (induction toolResults) (auto simp: List.map_filter_def)

lemma answered_ids:
  "List.map_filter id (map (\<lambda>u. if tu_name u = ''randomInt'' then Some (tu_id u) else None) us)
     = map tu_id (filter (\<lambda>u. tu_name u = ''randomInt'') us)"
  by (induction us) (auto simp: List.map_filter_def)

lemma find_None_ids:
  "(find (\<lambda>v. tr_tool_use_id v = i) vs = None) = (i \<notin> set (map tr_tool_use_id vs))"
  by (auto simp: find_None_iff)

lemma unhandled_uses_fulfilled:
  assumes "map (map_option tr_tool_use_id) toolResults
             = map (\<lambda>u. if tu_name u = ''randomInt'' then Some (tu_id u) else None) us"
  shows "unhandled_uses us toolResults
           = filter (\<lambda>u. tu_id u \<notin> set (map tu_id (filter (\<lambda>u. tu_name u = ''randomInt'') us))) us"
proof -
  have "map tr_tool_use_id (List.map_filter id toolResults)
          = map tu_id (filter (\<lambda>u. tu_name u = ''randomInt'') us)"
    by (simp only: valid_ids assms answered_ids)
  then show ?thesis
    by (simp only: unhandled_uses_def find_None_ids)
qed

lemma claude_hop_tool_use:
  assumes "settled (fetch_claude E k msgs) = Inr res"
    and "cr_stop_reason res = Some ''tool_use''"
    and "tool_uses (blocks_of (cr_content res)) = u # us"
    and "run_tools E (u # us) w = (outcomes, w')"
    and "Promise_all outcomes = Inr toolResults"
  shows "tool_calls (snd (claude_hop E k msgs w))
           = tool_calls w @ map tu_input (filter (\<lambda>u. tu_name u = ''randomInt'') (u # us))"
    and "fst (claude_hop E k msgs w)
           = (let unhandled =
                    filter (\<lambda>v. tu_id v \<notin> set (map tu_id (filter (\<lambda>u. tu_name u = ''randomInt'')
                                                              (u # us))))
                      (u # us)
              in if unhandled \<noteq> []
                 then Throw (Error (''Unhandled tool(s): '' @ join (map tu_name unhandled)))
                 else Continue (msgs @ [AssistantBlocks (blocks_of (cr_content res)),
                                        ToolResults toolResults]))"
proof -
  note ful = run_tools_fulfilled [OF assms(4,5)]
  have w': "snd (claude_hop E k msgs w) = w'"
    using assms by (simp add: claude_hop_def Let_def)
  with ful show "tool_calls (snd (claude_hop E k msgs w))
           = tool_calls w @ map tu_input (filter (\<lambda>u. tu_name u = ''randomInt'') (u # us))"
    by simp
  have un: "unhandled_uses (u # us) toolResults
          = filter (\<lambda>v. tu_id v \<notin> set (map tu_id (filter (\<lambda>u. tu_name u = ''randomInt'')
                                                      (u # us))))
              (u # us)"
    using ful by (intro unhandled_uses_fulfilled) simp
  have "fst (claude_hop E k msgs w)
          = (let unhandled = unhandled_uses (u # us) toolResults
             in if unhandled \<noteq> []
                then Throw (Error (''Unhandled tool(s): '' @ join (map tu_name unhandled)))
                else Continue (msgs @ [AssistantBlocks (blocks_of (cr_content res)),
                                       ToolResults toolResults]))"
    using assms by (simp add: claude_hop_def Let_def)
  then show "fst (claude_hop E k msgs w)
           = (let unhandled =
                    filter (\<lambda>v. tu_id v \<notin> set (map tu_id (filter (\<lambda>u. tu_name u = ''randomInt'')
                                                              (u # us))))
                      (u # us)
              in if unhandled \<noteq> []
                 then Throw (Error (''Unhandled tool(s): '' @ join (map tu_name unhandled)))
                 else Continue (msgs @ [AssistantBlocks (blocks_of (cr_content res)),
                                        ToolResults toolResults]))"
    by (simp only: un)
qed

text \<open>
  C6. The claim is that every adapter runs only the first of several tool requests of one
  response and reports the others in an error. What holds: the OpenAI and Gemini hops make
  at most one tool call, with the arguments of the first request of the response; the
  Claude hop, when its tool calls all fulfil, has called the tool once for every
  \<open>tool_use\<close> block named \<open>randomInt\<close>, in order, and if some \<open>tool_use\<close> block is left
  without a result (its id is not the id of a block that was run) the hop throws
  \<open>Unhandled tool(s): \<close> followed by the names of those blocks, and otherwise goes on.
\<close>

theorem simultaneous_tool_requests:
  "(settled (fetch_openai E k req) = Inr res \<and> first_message res = Some msg
      \<and> om_tool_calls msg = call # others
    \<longrightarrow> tool_calls (snd (openai_hop E k req w)) = tool_calls w
        \<or> tool_calls (snd (openai_hop E k req w))
            = tool_calls w @ [JSON_parse E (arguments_text call)])
   \<and> (settled (fetch_gemini E k greq) = Inr gres \<and> first_candidate gres = Some cand
      \<and> find (\<lambda>p. p_functionCall p \<noteq> None) (parts_of cand) = Some fc
      \<and> p_functionCall fc = Some fcall
    \<longrightarrow> tool_calls (snd (gemini_hop E k greq w)) = tool_calls w
        \<or> tool_calls (snd (gemini_hop E k greq w)) = tool_calls w @ [fc_args fcall])
   \<and> (settled (fetch_claude E k msgs) = Inr cres \<and> cr_stop_reason cres = Some ''tool_use''
      \<and> tool_uses (blocks_of (cr_content cres)) = u # us
      \<and> run_tools E (u # us) w = (outcomes, wa) \<and> Promise_all outcomes = Inr toolResults
    \<longrightarrow> tool_calls (snd (claude_hop E k msgs w))
          = tool_calls w @ map tu_input (filter (\<lambda>u. tu_name u = ''randomInt'') (u # us))
        \<and> fst (claude_hop E k msgs w)
          = (let unhandled =
                   filter (\<lambda>v. tu_id v \<notin> set (map tu_id (filter (\<lambda>u. tu_name u = ''randomInt'')
                                                             (u # us))))
                     (u # us)
             in if unhandled \<noteq> []
                then Throw (Error (''Unhandled tool(s): '' @ join (map tu_name unhandled)))
                else Continue (msgs @ [AssistantBlocks (blocks_of (cr_content cres)),
                                       ToolResults toolResults])))"
  using openai_hop_first_call [of E k req res msg call others w]
    gemini_hop_first_call [of E k greq gres cand fc fcall w]
    claude_hop_tool_use [of E k msgs cres u us w outcomes wa toolResults]
  by blast

lemmas script_defs =
  two_tool_requests_def two_randomInt_requests_def four_tool_requests_def demo_env_def
  openai_seed_def gemini_seed_def claude_seed_def init_world_def

theorem simultaneous_tool_requests_witness:
  "settled (fetch_openai two_tool_requests ''key'' (openai_seed ''hi'' []))
     = Inr [Some (OpenAIMessage None [ToolCall ''call_1'' ''randomInt'' ''{}'',
                                       ToolCall ''call_2'' ''randomInt'' ''{}''])]
   \<and> tool_calls (snd (openai_hop two_tool_requests ''key'' (openai_seed ''hi'' []) init_world))
       = [Some (JObj [])]
   \<and> settled (fetch_gemini two_tool_requests ''key'' (gemini_seed ''hi'' []))
     = Inr [Some [Part None (Some (FunctionCall ''randomInt'' (Some (JObj [(''max'', JNum 10)])))),
                  Part None (Some (FunctionCall ''randomInt'' (Some (JObj [(''max'', JNum 20)]))))]]
   \<and> tool_calls (snd (gemini_hop two_tool_requests ''key'' (gemini_seed ''hi'' []) init_world))
       = [Some (JObj [(''max'', JNum 10)])]
   \<and> settled (fetch_claude two_tool_requests ''key'' (claude_seed ''hi'' []))
     = Inr (ClaudeResponse
              (Some [ToolUseBlock (ToolUse ''toolu_1'' ''randomInt'' (Some (JObj [(''max'', JNum 10)]))),
                     ToolUseBlock (ToolUse ''toolu_2'' ''weather'' None)])
              (Some ''tool_use''))
   \<and> run_tools two_tool_requests
         [ToolUse ''toolu_1'' ''randomInt'' (Some (JObj [(''max'', JNum 10)])),
          ToolUse ''toolu_2'' ''weather'' None] init_world
       = ([Inr (Some (ToolResult ''toolu_1'' ''7'')), Inr None],
          \<lparr>clientPromise = Some (Promise 1 0), clients = 1, connections = [0],
           tool_calls = [Some (JObj [(''max'', JNum 10)])], promises = 2\<rparr>)
   \<and> tool_calls (snd (claude_hop two_tool_requests ''key'' (claude_seed ''hi'' []) init_world))
       = [Some (JObj [(''max'', JNum 10)])]
   \<and> fst (claude_hop two_tool_requests ''key'' (claude_seed ''hi'' []) init_world)
       = Throw (Error ''Unhandled tool(s): weather'')"
  using simultaneous_tool_requests
    [where E = two_tool_requests and k = "''key''" and w = init_world
       and req = "openai_seed ''hi'' []"
       and res = "[Some (OpenAIMessage None [ToolCall ''call_1'' ''randomInt'' ''{}'',
                                              ToolCall ''call_2'' ''randomInt'' ''{}''])]"
       and msg = "OpenAIMessage None [ToolCall ''call_1'' ''randomInt'' ''{}'',
                                      ToolCall ''call_2'' ''randomInt'' ''{}'']"
       and call = "ToolCall ''call_1'' ''randomInt'' ''{}''"
       and others = "[ToolCall ''call_2'' ''randomInt'' ''{}'']"
       and greq = "gemini_seed ''hi'' []"
       and gres = "[Some [Part None (Some (FunctionCall ''randomInt''
                                             (Some (JObj [(''max'', JNum 10)])))),
                          Part None (Some (FunctionCall ''randomInt''
                                             (Some (JObj [(''max'', JNum 20)]))))]]"
       and cand = "Some [Part None (Some (FunctionCall ''randomInt''
                                            (Some (JObj [(''max'', JNum 10)])))),
                         Part None (Some (FunctionCall ''randomInt''
                                            (Some (JObj [(''max'', JNum 20)]))))]"
       and fc = "Part None (Some (FunctionCall ''randomInt'' (Some (JObj [(''max'', JNum 10)]))))"
       and fcall = "FunctionCall ''randomInt'' (Some (JObj [(''max'', JNum 10)]))"
       and msgs = "claude_seed ''hi'' []"
       and cres = "ClaudeResponse
                     (Some [ToolUseBlock (ToolUse ''toolu_1'' ''randomInt''
                                            (Some (JObj [(''max'', JNum 10)]))),
                            ToolUseBlock (ToolUse ''toolu_2'' ''weather'' None)])
                     (Some ''tool_use'')"
       and u = "ToolUse ''toolu_1'' ''randomInt'' (Some (JObj [(''max'', JNum 10)]))"
       and us = "[ToolUse ''toolu_2'' ''weather'' None]"
       and outcomes = "[Inr (Some (ToolResult ''toolu_1'' ''7'')), Inr None]"
       and wa = "\<lparr>clientPromise = Some (Promise 1 0), clients = 1, connections = [0],
                  tool_calls = [Some (JObj [(''max'', JNum 10)])], promises = 2\<rparr>"
       and toolResults = "[Some (ToolResult ''toolu_1'' ''7''), None]"]
  by (simp add: script_defs openai_hop_def gemini_hop_def claude_hop_def arguments_text_def
      client_defs unhandled_uses_def List.map_filter_def Let_def)

theorem claude_runs_every_tool_use:
  "claude_hop two_randomInt_requests ''claude-key'' (claude_seed ''hi'' []) init_world
     = (Continue
          [UserOrAssistantText ''user'' ''hi'',
           AssistantBlocks
             [ToolUseBlock (ToolUse ''toolu_1'' ''randomInt'' (Some (JObj [(''max'', JNum 10)]))),
              ToolUseBlock (ToolUse ''toolu_2'' ''randomInt'' (Some (JObj [(''max'', JNum 20)])))],
           ToolResults [Some (ToolResult ''toolu_1'' ''7''), Some (ToolResult ''toolu_2'' ''7'')]],
        \<lparr>clientPromise = Some (Promise 1 0), clients = 1, connections = [0],
         tool_calls = [Some (JObj [(''max'', JNum 10)]), Some (JObj [(''max'', JNum 20)])],
         promises = 3\<rparr>)"
  by (simp add: script_defs claude_hop_def client_defs unhandled_uses_def
      List.map_filter_def Let_def)

text \<open>
  C9. In every adapter the tool result appended to the conversation state is tied to the
  request it answers, and the loop goes on with the state that holds it. OpenAI: the state
  grows by the response message and a tool message whose \<open>tool_call_id\<close> is the \<open>id\<close> of the
  call that was run. Claude: the state grows by the response's blocks and the array of
  results, which has, position by position, for each \<open>tool_use\<close> block that was run a
  result whose \<open>tool_use_id\<close> is the block's \<open>id\<close>. Gemini, whose function calls carry no
  token, answers by name: the state grows by the part holding the call and a function
  response with the name of that call.
\<close>

theorem tool_result_keeps_token:
  "(settled (fetch_openai E k req) = Inr res \<and> first_message res = Some msg
      \<and> om_tool_calls msg = call # others \<and> openai_hop E k req w = (Continue req_new, wa)
    \<longrightarrow> (\<exists>rand. req_new = req @ [Reply msg, ToolOutput rand (tc_id call)])
        \<and> openai_loop E k req w = openai_loop E k req_new wa)
   \<and> (settled (fetch_claude E k msgs) = Inr cres
      \<and> claude_hop E k msgs w = (Continue msgs_new, wb) \<and> depth < 3
    \<longrightarrow> (\<exists>toolResults.
            msgs_new = msgs @ [AssistantBlocks (blocks_of (cr_content cres)), ToolResults toolResults]
          \<and> map (map_option tr_tool_use_id) toolResults
              = map (\<lambda>u. if tu_name u = ''randomInt'' then Some (tu_id u) else None)
                  (tool_uses (blocks_of (cr_content cres))))
        \<and> claude_loop E k depth msgs w = claude_loop E k (Suc depth) msgs_new wb)
   \<and> (settled (fetch_gemini E k greq) = Inr gres \<and> first_candidate gres = Some cand
      \<and> find (\<lambda>p. p_functionCall p \<noteq> None) (parts_of cand) = Some fc
      \<and> p_functionCall fc = Some fcall \<and> gemini_hop E k greq w = (Continue greq_new, wc)
    \<longrightarrow> (\<exists>rand. greq_new = greq @ [ModelTurn fc, FunctionResponse (fc_name fcall) rand])
        \<and> gemini_loop E k greq w = gemini_loop E k greq_new wc)"
  using openai_hop_Continue [of E k req res msg call others w req_new wa]
    openai_loop_Continue [of E k req w req_new wa]
    claude_hop_Continue [of E k msgs cres w msgs_new wb]
    claude_loop_Continue [of E k msgs w msgs_new wb depth]
    gemini_hop_Continue [of E k greq gres cand fc fcall w greq_new wc]
    gemini_loop_Continue [of E k greq w greq_new wc]
  by blast

theorem tool_result_keeps_token_witness:
  "settled (fetch_openai four_tool_requests ''key'' (openai_seed ''hi'' []))
     = Inr [Some (OpenAIMessage None [ToolCall ''call_1'' ''randomInt'' ''{}''])]
   \<and> openai_hop four_tool_requests ''key'' (openai_seed ''hi'' []) init_world
     = (Continue (openai_seed ''hi'' [] @
                  [Reply (OpenAIMessage None [ToolCall ''call_1'' ''randomInt'' ''{}'']),
                   ToolOutput ''7'' ''call_1'']),
        \<lparr>clientPromise = Some (Promise 1 0), clients = 1, connections = [0],
                tool_calls = [Some (JObj [])], promises = 2\<rparr>)
   \<and> tc_id (ToolCall ''call_1'' ''randomInt'' ''{}'') = ''call_1''
   \<and> settled (fetch_claude four_tool_requests ''key'' (claude_seed ''hi'' []))
     = Inr (ClaudeResponse (Some [ToolUseBlock (ToolUse ''toolu_1'' ''randomInt'' None)])
              (Some ''tool_use''))
   \<and> claude_hop four_tool_requests ''key'' (claude_seed ''hi'' []) init_world
     = (Continue (claude_seed ''hi'' [] @
                  [AssistantBlocks [ToolUseBlock (ToolUse ''toolu_1'' ''randomInt'' None)],
                   ToolResults [Some (ToolResult ''toolu_1'' ''7'')]]),
        \<lparr>clientPromise = Some (Promise 1 0), clients = 1, connections = [0],
                tool_calls = [None], promises = 2\<rparr>)
   \<and> tu_id (ToolUse ''toolu_1'' ''randomInt'' None) = ''toolu_1''
   \<and> settled (fetch_gemini four_tool_requests ''key'' (gemini_seed ''hi'' []))
     = Inr [Some [Part None (Some (FunctionCall ''randomInt'' None))]]
   \<and> gemini_hop four_tool_requests ''key'' (gemini_seed ''hi'' []) init_world
     = (Continue (gemini_seed ''hi'' [] @
                  [ModelTurn (Part None (Some (FunctionCall ''randomInt'' None))),
                   FunctionResponse ''randomInt'' ''7'']),
        \<lparr>clientPromise = Some (Promise 1 0), clients = 1, connections = [0],
                tool_calls = [None], promises = 2\<rparr>)"
  using tool_result_keeps_token
    [where E = four_tool_requests and k = "''key''" and w = init_world
       and req = "openai_seed ''hi'' []"
       and res = "[Some (OpenAIMessage None [ToolCall ''call_1'' ''randomInt'' ''{}''])]"
       and msg = "OpenAIMessage None [ToolCall ''call_1'' ''randomInt'' ''{}'']"
       and call = "ToolCall ''call_1'' ''randomInt'' ''{}''"
       and others = "[]"
       and req_new = "openai_seed ''hi'' [] @
                   [Reply (OpenAIMessage None [ToolCall ''call_1'' ''randomInt'' ''{}'']),
                    ToolOutput ''7'' ''call_1'']"
       and wa = "\<lparr>clientPromise = Some (Promise 1 0), clients = 1, connections = [0],
                  tool_calls = [Some (JObj [])], promises = 2\<rparr>"
       and msgs = "claude_seed ''hi'' []"
       and cres = "ClaudeResponse (Some [ToolUseBlock (ToolUse ''toolu_1'' ''randomInt'' None)])
                     (Some ''tool_use'')"
       and msgs_new = "claude_seed ''hi'' [] @
                    [AssistantBlocks [ToolUseBlock (ToolUse ''toolu_1'' ''randomInt'' None)],
                     ToolResults [Some (ToolResult ''toolu_1'' ''7'')]]"
       and wb = "\<lparr>clientPromise = Some (Promise 1 0), clients = 1, connections = [0],
                  tool_calls = [None], promises = 2\<rparr>"
       and depth = 0
       and greq = "gemini_seed ''hi'' []"
       and gres = "[Some [Part None (Some (FunctionCall ''randomInt'' None))]]"
       and cand = "Some [Part None (Some (FunctionCall ''randomInt'' None))]"
       and fc = "Part None (Some (FunctionCall ''randomInt'' None))"
       and fcall = "FunctionCall ''randomInt'' None"
       and greq_new = "gemini_seed ''hi'' [] @
                    [ModelTurn (Part None (Some (FunctionCall ''randomInt'' None))),
                     FunctionResponse ''randomInt'' ''7'']"
       and wc = "\<lparr>clientPromise = Some (Promise 1 0), clients = 1, connections = [0],
                  tool_calls = [None], promises = 2\<rparr>"]
  by (simp add: script_defs openai_hop_def gemini_hop_def claude_hop_def arguments_text_def
      client_defs unhandled_uses_def List.map_filter_def Let_def)

subsection \<open>The conversation loops keep the single connection\<close>

lemma callRandomIntTool_one_connection_pair:
  "one_connection w \<Longrightarrow> callRandomIntTool E args w = (r, w') \<Longrightarrow> one_connection w'"
  using callRandomIntTool_one_connection [of w E args] by simp

lemma openai_hop_one_connection:
  assumes "one_connection w"
  shows "one_connection (snd (openai_hop E k req w))"
  using assms
  by (auto simp: openai_hop_def dest: callRandomIntTool_one_connection_pair
      split: sum.splits option.splits list.splits prod.splits)

lemma gemini_hop_one_connection:
  assumes "one_connection w"
  shows "one_connection (snd (gemini_hop E k req w))"
  using assms
  by (auto simp: gemini_hop_def Let_def dest: callRandomIntTool_one_connection_pair
      split: sum.splits option.splits prod.splits)

lemma run_tools_one_connection:
  "one_connection w \<Longrightarrow> one_connection (snd (run_tools E us w))"
proof (induction us arbitrary: w)
  case Nil
  then show ?case by simp
next
  case (Cons u us)
  from Cons.prems have "one_connection (snd (callRandomIntTool E (tu_input u) w))"
    by (rule callRandomIntTool_one_connection)
  then have "one_connection (snd (run_tools E us (snd (callRandomIntTool E (tu_input u) w))))"
    by (rule Cons.IH)
  moreover have "one_connection (snd (run_tools E us w))"
    using Cons.prems by (rule Cons.IH)
  ultimately show ?case
    by (auto split: prod.splits sum.splits)
qed

lemma run_tools_one_connection_pair:
  "one_connection w \<Longrightarrow> run_tools E us w = (rs, w') \<Longrightarrow> one_connection w'"
  using run_tools_one_connection [of w E us] by simp

lemma claude_hop_one_connection:
  assumes "one_connection w"
  shows "one_connection (snd (claude_hop E k msgs w))"
  using assms
  by (auto simp: claude_hop_def Let_def dest: run_tools_one_connection_pair
      split: sum.splits prod.splits)

lemma claude_loop_one_connection:
  "one_connection w \<Longrightarrow> one_connection (snd (claude_loop E k depth msgs w))"
proof (induction E k depth msgs w rule: claude_loop.induct)
  case (1 E k depth msgs w)
  show ?case
  proof (cases "depth < 3")
    case False
    with "1.prems" show ?thesis by (simp add: claude_loop.simps)
  next
    case True
    obtain h w' where hop: "claude_hop E k msgs w = (h, w')"
      by (cases "claude_hop E k msgs w")
    with claude_hop_one_connection [OF "1.prems", of E k msgs] have w': "one_connection w'"
      by simp
    show ?thesis
    proof (cases h)
      case (Continue msgs')
      with True hop w' "1.IH" show ?thesis
        by (auto simp: claude_loop_Continue)
    next
      case (Return a)
      with True hop w' show ?thesis by (subst claude_loop.simps) simp
    next
      case (Throw e)
      with True hop w' show ?thesis by (subst claude_loop.simps) simp
    qed
  qed
qed

lemma openai_loop_one_connection:
  assumes "openai_loop E k req w = Some y"
  shows "one_connection w \<longrightarrow> one_connection (snd y)"
proof (rule openai_loop.raw_induct
    [where P = "\<lambda>E k req w y. one_connection w \<longrightarrow> one_connection (snd y)", OF _ assms])
  fix f :: "env \<Rightarrow> string \<Rightarrow> openai_item list \<Rightarrow> world \<Rightarrow> ((js_error + string) \<times> world) option"
    and E k req w y
  assume IH: "\<And>E k req w y. f E k req w = Some y \<Longrightarrow> one_connection w \<longrightarrow> one_connection (snd y)"
    and step: "(case openai_hop E k req w of
                  (Continue req', w') \<Rightarrow> f E k req' w'
                | (Return answer, w') \<Rightarrow> Some (Inr answer, w')
                | (Throw e, w') \<Rightarrow> Some (Inl e, w')) = Some y"
  show "one_connection w \<longrightarrow> one_connection (snd y)"
  proof
    assume w: "one_connection w"
    obtain h w' where hop: "openai_hop E k req w = (h, w')"
      by (cases "openai_hop E k req w")
    with openai_hop_one_connection [OF w, of E k req] have w': "one_connection w'"
      by simp
    from step hop w' IH show "one_connection (snd y)"
      by (cases h) auto
  qed
qed

lemma gemini_loop_one_connection:
  assumes "gemini_loop E k req w = Some y"
  shows "one_connection w \<longrightarrow> one_connection (snd y)"
proof (rule gemini_loop.raw_induct
    [where P = "\<lambda>E k req w y. one_connection w \<longrightarrow> one_connection (snd y)", OF _ assms])
  fix f :: "env \<Rightarrow> string \<Rightarrow> gemini_item list \<Rightarrow> world \<Rightarrow> ((js_error + string) \<times> world) option"
    and E k req w y
  assume IH: "\<And>E k req w y. f E k req w = Some y \<Longrightarrow> one_connection w \<longrightarrow> one_connection (snd y)"
    and step: "(case gemini_hop E k req w of
                  (Continue req', w') \<Rightarrow> f E k req' w'
                | (Return answer, w') \<Rightarrow> Some (Inr answer, w')
                | (Throw e, w') \<Rightarrow> Some (Inl e, w')) = Some y"
  show "one_connection w \<longrightarrow> one_connection (snd y)"
  proof
    assume w: "one_connection w"
    obtain h w' where hop: "gemini_hop E k req w = (h, w')"
      by (cases "gemini_hop E k req w")
    with gemini_hop_one_connection [OF w, of E k req] have w': "one_connection w'"
      by simp
    from step hop w' IH show "one_connection (snd y)"
      by (cases h) auto
  qed
qed

text \<open>
  Whatever the page does from its start (calls of \<open>getMcpClient\<close>, of the tool, whole
  conversations with any vendor), \<open>connect\<close> has been called at most once.
\<close>

lemma chat_one_connection:
  assumes "one_connection w"
  shows "chatWithOpenAITools E userPrompt history w = Some y \<Longrightarrow> one_connection (snd y)"
    and "chatWithGeminiTools E userPrompt history w = Some y \<Longrightarrow> one_connection (snd y)"
    and "one_connection (snd (chatWithClaudeTools E userPrompt history w))"
  using assms openai_loop_one_connection gemini_loop_one_connection
    claude_loop_one_connection [OF assms]
  by (auto simp: chatWithOpenAITools_def chatWithGeminiTools_def chatWithClaudeTools_def
      split: option.splits if_splits)

end
